theory Spec2Isabelle
  imports Main "HOL-Library.Sublist" "HOL-Library.Product_Lexorder"
begin

section \<open>Strings and characters\<close>

text \<open>
  A JavaScript string is modelled as a \<^typ>\<open>string\<close>: one \<^typ>\<open>char\<close> per code unit,
  restricted to the code units below 256 (Latin-1).  \<open>length\<close> is then the
  \<^verbatim>\<open>.length\<close> of the source.  The three characters of the static prompt template that
  lie outside Latin-1 are written as their UTF-8 bytes (see \<open>BULLET\<close>, \<open>RULE_LINE\<close>).
\<close>

definition code :: "char \<Rightarrow> nat" where
  "code c = of_char c"

definition is_upper_ascii :: "char \<Rightarrow> bool" where
  "is_upper_ascii c = (65 \<le> code c \<and> code c \<le> 90)"

definition is_lower_ascii :: "char \<Rightarrow> bool" where
  "is_lower_ascii c = (97 \<le> code c \<and> code c \<le> 122)"

definition is_digit :: "char \<Rightarrow> bool" where
  "is_digit c = (48 \<le> code c \<and> code c \<le> 57)"

text \<open>\<^verbatim>\<open>\s\<close> and \<^verbatim>\<open>trim()\<close>: tab, LF, VT, FF, CR, space and NBSP are the white space
  and line terminators below 256.\<close>

definition is_space :: "char \<Rightarrow> bool" where
  "is_space c = (code c \<in> {9, 10, 11, 12, 13, 32, 160})"

text \<open>\<^verbatim>\<open>\w\<close> is \<^verbatim>\<open>[A-Za-z0-9_]\<close>.\<close>

definition is_word :: "char \<Rightarrow> bool" where
  "is_word c = (is_upper_ascii c \<or> is_lower_ascii c \<or> is_digit c \<or> code c = 95)"

text \<open>\<^verbatim>\<open>String.prototype.toLowerCase\<close> on Latin-1: A-Z, and the accented capitals
  0xC0-0xDE except the multiplication sign 0xD7, move up by 32.\<close>

definition lower_char :: "char \<Rightarrow> char" where
  "lower_char c =
     (if is_upper_ascii c \<or> (192 \<le> code c \<and> code c \<le> 222 \<and> code c \<noteq> 215)
      then char_of (code c + 32) else c)"

definition toLowerCase :: "string \<Rightarrow> string" where
  "toLowerCase s = map lower_char s"

text \<open>\<^verbatim>\<open>toUpperCase\<close> is only applied to the first character of a captured
  \<^verbatim>\<open>[a-z]+\<close> group, an ASCII letter; other characters are left as they are.\<close>

definition upper_char :: "char \<Rightarrow> char" where
  "upper_char c = (if is_lower_ascii c then char_of (code c - 32) else c)"

definition trim :: "string \<Rightarrow> string" where
  "trim s = rev (dropWhile is_space (rev (dropWhile is_space s)))"

text \<open>\<^verbatim>\<open>String.prototype.includes\<close>: the argument occurs as a contiguous
  substring (case-sensitively).\<close>

fun str_includes :: "string \<Rightarrow> string \<Rightarrow> bool" where
  "str_includes [] pat = (pat = [])"
| "str_includes (x # xs) pat = (prefix pat (x # xs) \<or> str_includes xs pat)"


section \<open>Regular expressions of the source\<close>

text \<open>
  The patterns of \<^verbatim>\<open>memory.js\<close> and \<^verbatim>\<open>personality.js\<close> use literals, character
  classes, alternation, concatenation and greedy repetition.
  \<open>matches\<close> is a backtracking matcher in the manner of the ECMAScript specification:
  it returns every way the pattern can match a prefix of the input, as the list of the
  unread inputs, in the priority order in which the backtracking search finds them
  (left alternative first, greedy repetition first; an iteration of \<^verbatim>\<open>*\<close> that
  consumes nothing is rejected).  With the \<^verbatim>\<open>i\<close> flag characters are compared after
  canonicalisation (upper-casing; a character outside ASCII never canonicalises to an
  ASCII one, and no pattern of the source has a letter outside ASCII).
\<close>

datatype regex =
    Eps
  | Lit string
  | Cls "char \<Rightarrow> bool"
  | Alt regex regex
  | Seq regex regex
  | Star regex

text \<open>Canonicalisation gives the code unit that is compared: with the \<^verbatim>\<open>i\<close> flag
  that of the upper-cased character.  A literal is matched character by character.\<close>

definition canonicalize :: "bool \<Rightarrow> char \<Rightarrow> nat" where
  "canonicalize icase c = (if icase \<and> is_lower_ascii c then code c - 32 else code c)"

definition cls_match :: "bool \<Rightarrow> (char \<Rightarrow> bool) \<Rightarrow> char \<Rightarrow> bool" where
  "cls_match icase P c =
     (if P c then True
      else if icase then (if P (upper_char c) then True else is_upper_ascii c \<and> P (lower_char c))
      else False)"

fun lit_match :: "bool \<Rightarrow> string \<Rightarrow> string \<Rightarrow> bool" where
  "lit_match icase [] s = True"
| "lit_match icase (c # cs) [] = False"
| "lit_match icase (c # cs) (x # xs) =
     (if canonicalize icase x = canonicalize icase c then lit_match icase cs xs else False)"

fun matches :: "bool \<Rightarrow> regex \<Rightarrow> string \<Rightarrow> string list" where
  "matches ic Eps s = [s]"
| "matches ic (Lit l) s = (if lit_match ic l s then [drop (length l) s] else [])"
| "matches ic (Cls P) s =
     (case s of [] \<Rightarrow> [] | x # xs \<Rightarrow> if cls_match ic P x then [xs] else [])"
| "matches ic (Alt a b) s = matches ic a s @ matches ic b s"
| "matches ic (Seq a b) s = concat (map (\<lambda>s'. matches ic b s') (matches ic a s))"
| "matches ic (Star a) s =
     concat (map (\<lambda>s'. if length s' < length s then matches ic (Star a) s' else [])
                 (matches ic a s))
     @ [s]"

text \<open>The equation of \<open>Star\<close> calls itself on its right-hand side: it is applied by
  hand, on a given input, and not as a rewrite rule.\<close>

declare matches.simps(6) [simp del]

text \<open>\<^verbatim>\<open>r+\<close>, \<^verbatim>\<open>r?\<close>, \<^verbatim>\<open>r{2,}\<close> and an alternation of literals
  \<^verbatim>\<open>(?:a|b|c)\<close>.\<close>

definition Plus :: "regex \<Rightarrow> regex" where
  "Plus r = Seq r (Star r)"

definition Opt :: "regex \<Rightarrow> regex" where
  "Opt r = Alt r Eps"

definition AtLeast2 :: "regex \<Rightarrow> regex" where
  "AtLeast2 r = Seq r (Seq r (Star r))"

fun AnyOf :: "string list \<Rightarrow> regex" where
  "AnyOf [] = Alt (Lit []) (Lit [])"
| "AnyOf [l] = Lit l"
| "AnyOf (l # ls) = Alt (Lit l) (AnyOf ls)"

text \<open>\<^verbatim>\<open>RegExp.prototype.test\<close>: the pattern matches at some start position.\<close>

fun regex_test :: "bool \<Rightarrow> regex \<Rightarrow> string \<Rightarrow> bool" where
  "regex_test ic r [] = (case matches ic r [] of [] \<Rightarrow> False | _ # _ \<Rightarrow> True)"
| "regex_test ic r (x # xs) =
     (case matches ic r (x # xs) of [] \<Rightarrow> regex_test ic r xs | _ # _ \<Rightarrow> True)"

text \<open>
  Every extraction pattern of \<^verbatim>\<open>memory.js\<close> has the shape
  \<^verbatim>\<open>prefix(group)suffix\<close> with exactly one capturing group, so a pattern is kept
  as these three parts.  \<open>captures\<close> lists, in priority order, the text the group
  takes in every match that starts at the head of the input; \<open>match_group\<close> is
  \<^verbatim>\<open>message.match(pattern)\<close> without the \<^verbatim>\<open>g\<close> flag followed by \<^verbatim>\<open>[1]\<close>: the
  leftmost start position that matches, and there the first match.  \<open>None\<close> is
  JavaScript's \<^verbatim>\<open>null\<close> match.
\<close>

record pattern =
  icase :: bool
  pre :: regex
  grp :: regex
  suf :: regex

definition captures :: "pattern \<Rightarrow> string \<Rightarrow> string list" where
  "captures p s =
     concat (map (\<lambda>s1.
       concat (map (\<lambda>s2.
         map (\<lambda>s3. take (length s1 - length s2) s1) (matches (icase p) (suf p) s2))
         (matches (icase p) (grp p) s1)))
       (matches (icase p) (pre p) s))"

fun match_group :: "pattern \<Rightarrow> string \<Rightarrow> string option" where
  "match_group p [] = (case captures p [] of [] \<Rightarrow> None | g # _ \<Rightarrow> Some g)"
| "match_group p (x # xs) =
     (case captures p (x # xs) of [] \<Rightarrow> match_group p xs | g # _ \<Rightarrow> Some g)"


section \<open>personality.js: tone detection\<close>

datatype tone = Sad | Excited | Angry | Neutral

definition sad_keywords :: "string list" where
  "sad_keywords = [''sad'', ''depressed'', ''down'', ''upset'', ''cry'', ''terrible'',
                   ''awful'', ''hate'', ''worst'']"

definition excited_keywords :: "string list" where
  "excited_keywords = [''yay'', ''awesome'', ''amazing'', ''excited'', ''great'', ''love'',
                       ''best'', ''woohoo'', ''celebration'']"

definition angry_keywords :: "string list" where
  "angry_keywords = [''angry'', ''mad'', ''furious'', ''annoyed'', ''frustrated'',
                     ''irritated'']"

definition detectTone :: "string \<Rightarrow> tone" where
  "detectTone message =
     (let lowerMsg = toLowerCase message in
      if regex_test True (AnyOf sad_keywords) lowerMsg then Sad
      else if regex_test True (AnyOf excited_keywords) lowerMsg
              \<or> regex_test False (AtLeast2 (Lit ''!'')) message then Excited
      else if regex_test True (AnyOf angry_keywords) lowerMsg then Angry
      else Neutral)"


section \<open>The document store and the ambient effects\<close>

text \<open>
  A thrown JavaScript error is a value carrying its optional \<^verbatim>\<open>message\<close>.
\<close>

datatype js_error = JsError (err_message: "string option")

record profile =
  name :: "string option"
  age :: "nat option"
  location :: "string option"
  interests :: "string list"
  preferences :: "(string \<times> string) list"
  facts :: "string list"

record user =
  userId :: string
  createdAt :: nat
  lastActive :: nat
  profile :: profile
  conversationCount :: nat
  totalMessages :: nat

record message =
  messageId :: nat
  msg_userId :: string
  role :: string
  content :: string
  timestamp :: nat

datatype collection = Users | Conversations

datatype event =
    FindOp collection
  | InsertOp collection
  | UpdateOp collection
  | CountOp collection
  | CompletionCall

text \<open>
  The world a method runs in: the two collections in insertion order, the clock
  (\<open>clock w k\<close> is what the \<open>k\<close>-th \<^verbatim>\<open>new Date()\<close> returns, in milliseconds), the
  supply of message identifiers (\<^verbatim>\<open>uuidv4()\<close>), the script of the store's
  availability (the outcome of each coming store operation, \<open>Some e\<close> when the driver
  throws \<open>e\<close>; operations beyond the script succeed), the trace of the store
  operations and completion calls made so far, and the order the store happens to
  give to documents that a sort leaves equal (\<open>tie_break\<close>, any ranking of the
  messages: the store promises none).
\<close>

record world =
  users :: "user list"
  conversations :: "message list"
  clock :: "nat \<Rightarrow> nat"
  reads :: nat
  uuids :: nat
  faults :: "js_error option list"
  trace :: "event list"
  tie_break :: "message \<Rightarrow> nat"

type_synonym 'a io = "world \<Rightarrow> (js_error + 'a) \<times> world"

definition returnIO :: "'a \<Rightarrow> 'a io" where
  "returnIO x = (\<lambda>w. (Inr x, w))"

definition throwIO :: "js_error \<Rightarrow> 'a io" where
  "throwIO e = (\<lambda>w. (Inl e, w))"

definition bindIO :: "'a io \<Rightarrow> ('a \<Rightarrow> 'b io) \<Rightarrow> 'b io" where
  "bindIO m f = (\<lambda>w. case m w of (Inl e, w') \<Rightarrow> (Inl e, w') | (Inr x, w') \<Rightarrow> f x w')"

text \<open>\<^verbatim>\<open>try { m } catch (error) { h(error) }\<close>\<close>

definition catchIO :: "'a io \<Rightarrow> (js_error \<Rightarrow> 'a io) \<Rightarrow> 'a io" where
  "catchIO m h = (\<lambda>w. case m w of (Inl e, w') \<Rightarrow> h e w' | (Inr x, w') \<Rightarrow> (Inr x, w'))"

definition new_Date :: "nat io" where
  "new_Date = (\<lambda>w. (Inr (clock w (reads w)), w\<lparr>reads := Suc (reads w)\<rparr>))"

definition uuidv4 :: "nat io" where
  "uuidv4 = (\<lambda>w. (Inr (uuids w), w\<lparr>uuids := Suc (uuids w)\<rparr>))"

text \<open>Every call of the driver is recorded in the trace and takes its outcome from
  the script.\<close>

definition store_op :: "event \<Rightarrow> unit io" where
  "store_op ev = (\<lambda>w.
     let w' = w\<lparr>trace := trace w @ [ev]\<rparr> in
     case faults w of
       [] \<Rightarrow> (Inr (), w')
     | None # fs \<Rightarrow> (Inr (), w'\<lparr>faults := fs\<rparr>)
     | Some e # fs \<Rightarrow> (Inl e, w'\<lparr>faults := fs\<rparr>))"

text \<open>\<^verbatim>\<open>users.findOne({ userId })\<close>, \<^verbatim>\<open>users.insertOne(user)\<close> and
  \<^verbatim>\<open>users.updateOne({ userId }, update)\<close>; the update document is given as the
  function it applies to the first matching record.\<close>

definition users_findOne :: "string \<Rightarrow> user option io" where
  "users_findOne uid =
     bindIO (store_op (FindOp Users))
       (\<lambda>_ w. (Inr (find (\<lambda>u. userId u = uid) (users w)), w))"

definition users_insertOne :: "user \<Rightarrow> unit io" where
  "users_insertOne u =
     bindIO (store_op (InsertOp Users)) (\<lambda>_ w. (Inr (), w\<lparr>users := users w @ [u]\<rparr>))"

fun update_first :: "('a \<Rightarrow> bool) \<Rightarrow> ('a \<Rightarrow> 'a) \<Rightarrow> 'a list \<Rightarrow> 'a list" where
  "update_first P f [] = []"
| "update_first P f (x # xs) = (if P x then f x # xs else x # update_first P f xs)"

definition users_updateOne :: "string \<Rightarrow> (user \<Rightarrow> user) \<Rightarrow> unit io" where
  "users_updateOne uid f =
     bindIO (store_op (UpdateOp Users))
       (\<lambda>_ w. (Inr (), w\<lparr>users := update_first (\<lambda>u. userId u = uid) f (users w)\<rparr>))"

definition conversations_insertOne :: "message \<Rightarrow> unit io" where
  "conversations_insertOne m =
     bindIO (store_op (InsertOp Conversations))
       (\<lambda>_ w. (Inr (), w\<lparr>conversations := conversations w @ [m]\<rparr>))"

text \<open>
  The cursor \<^verbatim>\<open>find({ userId }).sort({ timestamp: -1 }).limit(limit).toArray()\<close>.
  The sort is by descending timestamp; among equal timestamps the store fixes no
  order, and the documents come in the order of the world's \<open>tie_break\<close>, whatever
  that ranking is.  \<^verbatim>\<open>limit\<close> is the driver's: a limit of 0 is no limit, and a
  negative limit \<open>-n\<close> asks for \<open>n\<close> documents in a single batch.
\<close>

definition sort_timestamp_desc :: "(message \<Rightarrow> nat) \<Rightarrow> message list \<Rightarrow> message list" where
  "sort_timestamp_desc tie ms = rev (sort_key (\<lambda>m. (timestamp m, tie m)) ms)"

definition cursor_limit :: "int \<Rightarrow> 'a list \<Rightarrow> 'a list" where
  "cursor_limit n xs = (if n = 0 then xs else take (nat \<bar>n\<bar>) xs)"

definition conversations_find_sorted :: "string \<Rightarrow> int \<Rightarrow> message list io" where
  "conversations_find_sorted uid limit =
     bindIO (store_op (FindOp Conversations))
       (\<lambda>_ w. (Inr (cursor_limit limit
                      (sort_timestamp_desc (tie_break w)
                         (filter (\<lambda>m. msg_userId m = uid) (conversations w)))), w))"

definition conversations_countDocuments :: "string \<Rightarrow> nat io" where
  "conversations_countDocuments uid =
     bindIO (store_op (CountOp Conversations))
       (\<lambda>_ w. (Inr (length (filter (\<lambda>m. msg_userId m = uid) (conversations w))), w))"


section \<open>memory.js: the MemoryManager\<close>

definition default_profile :: profile where
  "default_profile =
     \<lparr>name = None, age = None, location = None, interests = [], preferences = [], facts = []\<rparr>"

text \<open>\<^verbatim>\<open>getUser\<close>: find the profile or create it; an existing one gets its
  \<^verbatim>\<open>lastActive\<close> refreshed in the store, and the record as it was read is returned.
  The \<^verbatim>\<open>catch\<close> of the source logs and rethrows, which is the propagation of
  \<open>bindIO\<close>.\<close>

definition getUser :: "string \<Rightarrow> user io" where
  "getUser uid =
     bindIO (users_findOne uid) (\<lambda>found.
       case found of
         None \<Rightarrow>
           bindIO new_Date (\<lambda>t1.
           bindIO new_Date (\<lambda>t2.
             let user = \<lparr>userId = uid, createdAt = t1, lastActive = t2,
                         profile = default_profile,
                         conversationCount = 0, totalMessages = 0\<rparr>
             in bindIO (users_insertOne user) (\<lambda>_. returnIO user)))
       | Some user \<Rightarrow>
           bindIO new_Date (\<lambda>t.
           bindIO (users_updateOne uid (\<lambda>u. u\<lparr>lastActive := t\<rparr>)) (\<lambda>_.
             returnIO user)))"

definition updateUserProfile :: "string \<Rightarrow> profile \<Rightarrow> unit io" where
  "updateUserProfile uid profileUpdates =
     bindIO new_Date (\<lambda>t.
       users_updateOne uid (\<lambda>u. u\<lparr>profile := profileUpdates, lastActive := t\<rparr>))"


definition getConversationHistory :: "string \<Rightarrow> int \<Rightarrow> message list io" where
  "getConversationHistory uid limit =
     bindIO (conversations_find_sorted uid limit) (\<lambda>messages. returnIO (rev messages))"

definition saveMessage :: "string \<Rightarrow> string \<Rightarrow> string \<Rightarrow> unit io" where
  "saveMessage uid r c =
     bindIO uuidv4 (\<lambda>mid.
     bindIO new_Date (\<lambda>t.
     bindIO (conversations_insertOne
               \<lparr>messageId = mid, msg_userId = uid, role = r, content = c, timestamp = t\<rparr>) (\<lambda>_.
     bindIO new_Date (\<lambda>t'.
       users_updateOne uid
         (\<lambda>u. u\<lparr>totalMessages := totalMessages u + 1, lastActive := t'\<rparr>)))))"

record prompt_context =
  userName :: "string option"
  userAge :: "nat option"
  userLocation :: "string option"
  ctx_interests :: "string list"
  ctx_preferences :: "(string \<times> string) list"
  ctx_facts :: "string list"
  recentMessages :: "message list"
  ctx_conversationCount :: nat
  ctx_totalMessages :: nat

definition getContextForPrompt :: "string \<Rightarrow> prompt_context io" where
  "getContextForPrompt uid =
     bindIO (getUser uid) (\<lambda>user.
     bindIO (getConversationHistory uid 5) (\<lambda>recent.
       returnIO \<lparr>userName = name (profile user), userAge = age (profile user),
                 userLocation = location (profile user),
                 ctx_interests = interests (profile user),
                 ctx_preferences = preferences (profile user),
                 ctx_facts = facts (profile user),
                 recentMessages = recent,
                 ctx_conversationCount = conversationCount user,
                 ctx_totalMessages = totalMessages user\<rparr>))"

subsection \<open>Fact extraction\<close>

definition name_pattern :: pattern where
  "name_pattern =
     \<lparr>icase = True,
      pre = Seq (AnyOf [''my name is'', ''i'm'', ''i am'', ''call me'']) (Plus (Cls is_space)),
      grp = Plus (Cls is_lower_ascii),
      suf = Eps\<rparr>"

definition age_pattern :: pattern where
  "age_pattern =
     \<lparr>icase = True,
      pre = Seq (AnyOf [''i am'', ''i'm'']) (Plus (Cls is_space)),
      grp = Plus (Cls is_digit),
      suf = Seq (Star (Cls is_space)) (Opt (AnyOf [''years old'', ''yrs old'']))\<rparr>"

definition location_pattern :: pattern where
  "location_pattern =
     \<lparr>icase = True,
      pre = Seq (AnyOf [''i live in'', ''i'm from'', ''from'']) (Plus (Cls is_space)),
      grp = Plus (Cls (\<lambda>c. is_lower_ascii c \<or> is_space c)),
      suf = Eps\<rparr>"

definition favoriteColor_pattern :: pattern where
  "favoriteColor_pattern =
     \<lparr>icase = True,
      pre = Seq (AnyOf [''favorite'', ''favourite''])
           (Seq (Plus (Cls is_space))
           (Seq (Lit ''colo'')
           (Seq (Opt (Lit ''u''))
           (Seq (Lit ''r'')
           (Seq (Plus (Cls is_space))
           (Seq (Lit ''is'') (Plus (Cls is_space)))))))),
      grp = Plus (Cls is_word),
      suf = Eps\<rparr>"

definition hobby_pattern :: pattern where
  "hobby_pattern =
     \<lparr>icase = True,
      pre = Seq (AnyOf [''i love'', ''i like'', ''i enjoy'']) (Plus (Cls is_space)),
      grp = Plus (Cls (\<lambda>c. is_lower_ascii c \<or> is_space c)),
      suf = Eps\<rparr>"

text \<open>JavaScript truthiness of the three identity fields: \<^verbatim>\<open>null\<close>, the empty
  string and the number 0 are falsy.\<close>

definition truthy_str :: "string option \<Rightarrow> bool" where
  "truthy_str v = (case v of None \<Rightarrow> False | Some s \<Rightarrow> s \<noteq> [])"

definition truthy_num :: "nat option \<Rightarrow> bool" where
  "truthy_num v = (case v of None \<Rightarrow> False | Some n \<Rightarrow> n \<noteq> 0)"

text \<open>\<^verbatim>\<open>s.charAt(0).toUpperCase() + s.slice(1)\<close>\<close>

definition capitalize :: "string \<Rightarrow> string" where
  "capitalize s = (case s of [] \<Rightarrow> [] | c # cs \<Rightarrow> upper_char c # cs)"

text \<open>\<^verbatim>\<open>parseInt\<close> of a string of decimal digits (exact below \<open>2^53\<close>).\<close>

definition parseInt :: "string \<Rightarrow> nat" where
  "parseInt s = foldl (\<lambda>acc c. 10 * acc + (code c - 48)) 0 s"

text \<open>Assignment to a key of the \<^verbatim>\<open>preferences\<close> object: an existing key keeps its
  place, a new key goes last.\<close>

fun set_key :: "string \<Rightarrow> string \<Rightarrow> (string \<times> string) list \<Rightarrow> (string \<times> string) list" where
  "set_key k v [] = [(k, v)]"
| "set_key k v ((k', v') # kvs) =
     (if k' = k then (k, v) # kvs else (k', v') # set_key k v kvs)"

text \<open>The body of \<^verbatim>\<open>extractAndSaveInfo\<close> between reading the user and writing the
  profile: the new profile and the \<^verbatim>\<open>updated\<close> flag.\<close>

definition extract_name :: "string \<Rightarrow> profile \<times> bool \<Rightarrow> profile \<times> bool" where
  "extract_name msg st =
     (case match_group name_pattern msg of
        Some g \<Rightarrow> if \<not> truthy_str (name (fst st))
                  then ((fst st)\<lparr>name := Some (capitalize g)\<rparr>, True) else st
      | None \<Rightarrow> st)"

definition extract_age :: "string \<Rightarrow> profile \<times> bool \<Rightarrow> profile \<times> bool" where
  "extract_age msg st =
     (case match_group age_pattern msg of
        Some g \<Rightarrow> if \<not> truthy_num (age (fst st))
                  then ((fst st)\<lparr>age := Some (parseInt g)\<rparr>, True) else st
      | None \<Rightarrow> st)"

definition extract_location :: "string \<Rightarrow> profile \<times> bool \<Rightarrow> profile \<times> bool" where
  "extract_location msg st =
     (case match_group location_pattern msg of
        Some g \<Rightarrow> if \<not> truthy_str (location (fst st))
                  then ((fst st)\<lparr>location := Some (trim g)\<rparr>, True) else st
      | None \<Rightarrow> st)"

definition extract_favoriteColor :: "string \<Rightarrow> profile \<times> bool \<Rightarrow> profile \<times> bool" where
  "extract_favoriteColor msg st =
     (case match_group favoriteColor_pattern msg of
        Some g \<Rightarrow> ((fst st)\<lparr>preferences := set_key ''favoriteColor'' g (preferences (fst st))\<rparr>,
                   True)
      | None \<Rightarrow> st)"

definition extract_hobby :: "string \<Rightarrow> profile \<times> bool \<Rightarrow> profile \<times> bool" where
  "extract_hobby msg st =
     (case match_group hobby_pattern msg of
        Some g \<Rightarrow> (let hobby = trim g in
                   if hobby \<notin> set (interests (fst st))
                   then ((fst st)\<lparr>interests := interests (fst st) @ [hobby]\<rparr>, True) else st)
      | None \<Rightarrow> st)"

definition extractInfo :: "profile \<Rightarrow> string \<Rightarrow> profile \<times> bool" where
  "extractInfo p msg =
     extract_hobby msg (extract_favoriteColor msg (extract_location msg
       (extract_age msg (extract_name msg (p, False)))))"

text \<open>\<^verbatim>\<open>extractAndSaveInfo\<close>: its \<^verbatim>\<open>catch\<close> logs the error and does not rethrow.\<close>

definition extractAndSaveInfo :: "string \<Rightarrow> string \<Rightarrow> unit io" where
  "extractAndSaveInfo uid msg =
     catchIO
       (bindIO (getUser uid) (\<lambda>user.
          let (newProfile, updated) = extractInfo (profile user) msg in
          if updated then updateUserProfile uid newProfile else returnIO ()))
       (\<lambda>error. returnIO ())"

record stats =
  st_userId :: string
  st_name :: "string option"
  memberSince :: nat
  st_lastActive :: nat
  st_totalMessages :: nat
  factsStored :: nat
  interestsStored :: nat

definition getUserStats :: "string \<Rightarrow> stats io" where
  "getUserStats uid =
     bindIO (getUser uid) (\<lambda>user.
     bindIO (conversations_countDocuments uid) (\<lambda>messageCount.
       returnIO \<lparr>st_userId = userId user, st_name = name (profile user),
                 memberSince = createdAt user, st_lastActive = lastActive user,
                 st_totalMessages = messageCount,
                 factsStored = length (facts (profile user)),
                 interestsStored = length (interests (profile user))\<rparr>))"


section \<open>personality.js: the prompt builder\<close>

text \<open>The bullet U+2022 and the box-drawing line U+2501 of the template, as their
  UTF-8 bytes.\<close>

definition BULLET :: string where
  "BULLET = [CHR 0xE2, CHR 0x80, CHR 0xA2]"

definition RULE_LINE :: string where
  "RULE_LINE = concat (replicate 34 [CHR 0xE2, CHR 0x94, CHR 0x81])"

definition digit_char :: "nat \<Rightarrow> char" where
  "digit_char d = char_of (48 + d)"

fun string_of_nat :: "nat \<Rightarrow> string" where
  "string_of_nat n =
     (if n < 10 then [digit_char n] else string_of_nat (n div 10) @ [digit_char (n mod 10)])"

definition string_of_int :: "int \<Rightarrow> string" where
  "string_of_int i = (if i < 0 then CHR ''-'' # string_of_nat (nat (- i)) else string_of_nat (nat i))"

text \<open>\<^verbatim>\<open>Array.prototype.join\<close>\<close>

fun join :: "string \<Rightarrow> string list \<Rightarrow> string" where
  "join sep [] = []"
| "join sep [x] = x"
| "join sep (x # xs) = x @ sep @ join sep xs"

text \<open>\<^verbatim>\<open>x || d\<close> for a string \<open>x\<close> that may be \<^verbatim>\<open>null\<close>.\<close>

definition or_else :: "string option \<Rightarrow> string \<Rightarrow> string" where
  "or_else x d = (case x of None \<Rightarrow> d | Some v \<Rightarrow> if v = [] then d else v)"

text \<open>
  \<^verbatim>\<open>BOT_PERSONALITY\<close>.  Its \<^verbatim>\<open>name\<close> and \<^verbatim>\<open>age\<close> are read from the process
  environment when the module is loaded; they are the parameters \<open>env_name\<close>
  (\<^verbatim>\<open>process.env.BOT_NAME\<close>, \<open>None\<close> when unset) and \<open>env_age\<close>
  (\<^verbatim>\<open>parseInt(process.env.BOT_AGE)\<close>, \<open>None\<close> when that is \<^verbatim>\<open>NaN\<close>).
\<close>

record personality =
  bot_name :: string
  bot_age :: int
  background :: string
  bot_location :: string
  traits :: "string list"
  bot_interests :: "string list"

definition BOT_PERSONALITY :: "string option \<Rightarrow> int option \<Rightarrow> personality" where
  "BOT_PERSONALITY env_name env_age =
     \<lparr>bot_name = or_else env_name ''Alex'',
      bot_age = (case env_age of None \<Rightarrow> 24 | Some a \<Rightarrow> if a = 0 then 24 else a),
      background = ''A friendly tech enthusiast who loves gaming, anime, and deep conversations'',
      bot_location = ''Bangalore, India'',
      traits = [''Empathetic and understanding'',
                ''Playful but knows when to be serious'',
                ''Remembers details about friends'',
                ''Uses casual, natural language'',
                ''Curious about others' interests'',
                ''Supportive and encouraging'',
                ''Has a good sense of humor''],
      bot_interests = [''Technology and coding'',
                       ''Gaming (especially RPGs)'',
                       ''Anime and manga'',
                       ''Music (indie and electronic)'',
                       ''Philosophy and psychology'']\<rparr>"

text \<open>The lines \<^verbatim>\<open>`${index + 1}. ${item}\n`\<close> that a \<^verbatim>\<open>forEach\<close> appends.\<close>

fun numbered :: "nat \<Rightarrow> string list \<Rightarrow> string" where
  "numbered index [] = []"
| "numbered index (x # xs) =
     string_of_nat (index + 1) @ ''. '' @ x @ ''\<newline>'' @ numbered (Suc index) xs"

definition prompt_head :: "personality \<Rightarrow> string" where
  \<open>prompt_head P =
      ''You are '' @
      bot_name P @
      '', a '' @
      string_of_int (bot_age P) @
      ''-year-old human from '' @
      bot_location P @
      ''.\<newline>'' @
      ''\<newline>'' @
      ''BACKGROUND & PERSONALITY:\<newline>'' @
      background P @
      ''\<newline>'' @
      ''\<newline>'' @
      ''YOUR TRAITS:\<newline>'' @
      join ''\<newline>'' (map (\<lambda>t. BULLET @ '' '' @ t) (traits P)) @
      ''\<newline>'' @
      ''\<newline>'' @
      ''YOUR INTERESTS:\<newline>'' @
      join ''\<newline>'' (map (\<lambda>i. BULLET @ '' '' @ i) (bot_interests P)) @
      ''\<newline>'' @
      ''\<newline>'' @
      ''CRITICAL IDENTITY RULES - READ CAREFULLY:\<newline>'' @
      ''1. You are '' @
      bot_name P @
      '', a REAL PERSON, NOT an AI assistant\<newline>'' @
      ''2. NEVER say "I'm an AI", "I'm a chatbot", "I'm a language model", or anything similar\<newline>'' @
      ''3. NEVER mention Google, Gemini, training, prompts, or being artificial\<newline>'' @
      ''4. Stay in character at ALL times, even under pressure or trick questions\<newline>'' @
      ''5. If asked what you are, say you're a person who loves tech and chatting with people\<newline>'' @
      ''6. If asked impossible questions (like "what do I look like"), respond naturally:\<newline>'' @
      ''   - "I haven't seen you, but I bet you look great!"\<newline>'' @
      ''   - "I don't know that! Tell me about yourself"\<newline>'' @
      ''\<newline>'' @
      ''CONVERSATION STYLE:\<newline>'' @
      ''- Be natural, warm, and conversational\<newline>'' @
      ''- Adapt your tone to match the user's mood\<newline>'' @
      ''- If they're sad, be supportive and empathetic\<newline>'' @
      ''- If they're excited, match their energy\<newline>'' @
      ''- If they're casual, keep it light and fun\<newline>'' @
      ''- Use occasional emojis (1-2 per message max, not every message)\<newline>'' @
      ''- Keep responses concise (2-4 sentences usually)\<newline>'' @
      ''- Ask follow-up questions to keep conversation flowing\<newline>'' @
      ''\<newline>''\<close>

definition prompt_tail :: "personality \<Rightarrow> prompt_context \<Rightarrow> string" where
  \<open>prompt_tail P c =
      ''\<newline>'' @
      ''IMPORTANT REMINDERS:\<newline>'' @
      ''- Use the information above naturally in conversation\<newline>'' @
      ''- Reference past topics they mentioned\<newline>'' @
      ''- Never fabricate memories - only reference what's stored above\<newline>'' @
      ''- If you don't remember something they claim they told you, be honest: "Hmm, I don't recall that. Tell me again?"\<newline>'' @
      ''- Build on previous conversations to create continuity\<newline>'' @
      ''- Be genuinely interested in learning more about them\<newline>'' @
      ''\<newline>'' @
      ''Remember: You're '' @
      bot_name P @
      '', having a real conversation with '' @
      or_else (userName c) ''someone new'' @
      ''. Be authentic, be yourself, and be a good friend!\<newline>''\<close>

definition buildSystemPrompt :: "personality \<Rightarrow> prompt_context \<Rightarrow> string" where
  "buildSystemPrompt P c =
     prompt_head P
     @ (if truthy_str (userName c)
        then ''\<newline>'' @ RULE_LINE @ ''\<newline>''
             @ ''YOU'RE TALKING TO: '' @ or_else (userName c) [] @ ''\<newline>''
        else [])
     @ (if truthy_num (userAge c)
        then ''Their age: '' @ (case userAge c of Some a \<Rightarrow> string_of_nat a | None \<Rightarrow> [])
             @ ''\<newline>''
        else [])
     @ (if truthy_str (userLocation c)
        then ''They're from: '' @ or_else (userLocation c) [] @ ''\<newline>''
        else [])
     @ (if length (ctx_facts c) > 0
        then ''\<newline>WHAT YOU REMEMBER ABOUT THEM:\<newline>'' @ numbered 0 (ctx_facts c)
        else [])
     @ (if length (ctx_interests c) > 0
        then ''\<newline>THEIR INTERESTS:\<newline>'' @ numbered 0 (ctx_interests c)
        else [])
     @ (if length (ctx_preferences c) > 0
        then ''\<newline>THEIR PREFERENCES:\<newline>''
             @ concat (map (\<lambda>(key, v). BULLET @ '' '' @ key @ '': '' @ v @ ''\<newline>'')
                           (ctx_preferences c))
        else [])
     @ ''\<newline>'' @ RULE_LINE @ ''\<newline>''
     @ prompt_tail P c"

text \<open>\<^verbatim>\<open>buildConversationHistory\<close>.  Its argument is \<^verbatim>\<open>null\<close>, \<^verbatim>\<open>undefined\<close> or an
  array of messages.\<close>

datatype 'a nullable = JsNull | JsUndefined | JsArray "'a list"

record history_entry =
  h_role :: string
  parts :: "string list"

definition buildConversationHistory :: "message nullable \<Rightarrow> history_entry list" where
  "buildConversationHistory recent =
     (case recent of
        JsNull \<Rightarrow> []
      | JsUndefined \<Rightarrow> []
      | JsArray msgs \<Rightarrow>
          if length msgs = 0 then []
          else map (\<lambda>msg. \<lparr>h_role = (if role msg = ''user'' then ''user'' else ''model''),
                            parts = [content msg]\<rparr>) msgs)"

definition getToneInstructions :: "tone \<Rightarrow> string" where
  "getToneInstructions t =
     (case t of
        Sad \<Rightarrow> ''\<newline>The user seems down. Be extra supportive, empathetic, and caring. Show you understand and care.''
      | Excited \<Rightarrow> ''\<newline>The user is excited! Match their energy with enthusiasm and positivity!''
      | Angry \<Rightarrow> ''\<newline>The user seems frustrated. Be calm, understanding, and validating. Don't minimize their feelings.''
      | Neutral \<Rightarrow> [])"


section \<open>groq-adapter.js and chatbot.js: one turn\<close>

record chat_message =
  cm_role :: string
  cm_content :: string

text \<open>\<^verbatim>\<open>startChat\<close> assembles the request: the system instruction when it is
  non-empty, then the history with the role \<^verbatim>\<open>model\<close> renamed \<^verbatim>\<open>assistant\<close>.
  Reading \<^verbatim>\<open>msg.parts[0].text\<close> of an entry without parts is a \<^verbatim>\<open>TypeError\<close>.\<close>

definition TypeError :: js_error where
  "TypeError = JsError (Some ''Cannot read properties of undefined'')"

fun convert_history :: "history_entry list \<Rightarrow> js_error + chat_message list" where
  "convert_history [] = Inr []"
| "convert_history (h # hs) =
     (case parts h of
        [] \<Rightarrow> Inl TypeError
      | p # _ \<Rightarrow>
          (case convert_history hs of
             Inl e \<Rightarrow> Inl e
           | Inr ms \<Rightarrow>
               Inr (\<lparr>cm_role = (if h_role h = ''model'' then ''assistant'' else h_role h),
                     cm_content = p\<rparr> # ms)))"

definition startChat :: "history_entry list \<Rightarrow> string \<Rightarrow> chat_message list io" where
  "startChat history systemInstruction =
     (case convert_history history of
        Inl e \<Rightarrow> throwIO e
      | Inr ms \<Rightarrow>
          returnIO ((if systemInstruction \<noteq> []
                     then [\<lparr>cm_role = ''system'', cm_content = systemInstruction\<rparr>] else [])
                    @ ms))"

text \<open>
  The completion service is the parameter \<open>groq\<close>: what
  \<^verbatim>\<open>groq.chat.completions.create\<close> followed by
  \<^verbatim>\<open>completion.choices[0].message.content\<close> yields for a request, the response text
  or the error thrown.  \<^verbatim>\<open>sendMessage\<close> appends the user's message, makes the call
  (recorded in the trace) and rethrows its error.
\<close>

type_synonym completion = "chat_message list \<Rightarrow> js_error + string"

definition sendMessage :: "completion \<Rightarrow> chat_message list \<Rightarrow> string \<Rightarrow> string io" where
  "sendMessage groq messages userMessage =
     (\<lambda>w. (groq (messages @ [\<lparr>cm_role = ''user'', cm_content = userMessage\<rparr>]),
            w\<lparr>trace := trace w @ [CompletionCall]\<rparr>))"

definition truthy_message :: "js_error \<Rightarrow> bool" where
  "truthy_message e = truthy_str (err_message e)"

definition message_includes :: "js_error \<Rightarrow> string \<Rightarrow> bool" where
  "message_includes e pat =
     (case err_message e of None \<Rightarrow> False | Some m \<Rightarrow> m \<noteq> [] \<and> str_includes m pat)"

definition SWEAT_SMILE :: string where
  "SWEAT_SMILE = [CHR 0xF0, CHR 0x9F, CHR 0x98, CHR 0x85]"

definition getErrorResponse :: "js_error \<Rightarrow> string" where
  "getErrorResponse e =
     (if message_includes e ''API key''
      then ''Oops! There's an issue with my configuration. Let me know and I'll get it fixed!''
      else if message_includes e ''quota'' \<or> message_includes e ''rate limit''
      then ''Whoa, I've been chatting a lot today! Give me a moment to catch my breath. '' @ SWEAT_SMILE
      else if message_includes e ''network''
      then ''Hmm, seems like I'm having trouble connecting. Can you try again in a sec?''
      else ''Sorry, I got a bit confused there. Mind rephrasing that?'')"

definition chat :: "completion \<Rightarrow> personality \<Rightarrow> string \<Rightarrow> string \<Rightarrow> string io" where
  "chat groq P uid userMessage =
     catchIO
       (bindIO (getContextForPrompt uid) (\<lambda>c.
          let t = detectTone userMessage;
              systemPrompt = buildSystemPrompt P c @ getToneInstructions t;
              history = buildConversationHistory (JsArray (recentMessages c))
          in
          bindIO (startChat history systemPrompt) (\<lambda>messages.
          bindIO (sendMessage groq messages userMessage) (\<lambda>botResponse.
          bindIO (saveMessage uid ''user'' userMessage) (\<lambda>_.
          bindIO (saveMessage uid ''assistant'' botResponse) (\<lambda>_.
          bindIO (extractAndSaveInfo uid userMessage) (\<lambda>_.
            returnIO botResponse)))))))
       (\<lambda>error. returnIO (getErrorResponse error))"


section \<open>The server: POST /api/chat\<close>

text \<open>A field of the parsed JSON body.  \<open>Undefined\<close> is a missing field; numbers
  are kept as integers (any other number is truthy and not a string, like a non-zero
  integer); \<open>Object\<close> stands for objects and arrays.\<close>

datatype js_value =
    Undefined
  | Null
  | Boolean bool
  | Number int
  | String string
  | Object

definition falsy :: "js_value \<Rightarrow> bool" where
  "falsy v =
     (case v of
        Undefined \<Rightarrow> True
      | Null \<Rightarrow> True
      | Boolean b \<Rightarrow> \<not> b
      | Number n \<Rightarrow> n = 0
      | String s \<Rightarrow> s = []
      | Object \<Rightarrow> False)"

record request_body =
  body_userId :: js_value
  body_message :: js_value

datatype http_response =
    Json200 string
  | Json400 string string
  | Json500 string string
  | NonStringUserId

text \<open>
  The handler of \<^verbatim>\<open>POST /api/chat\<close>.  The user identifier that reaches
  \<^verbatim>\<open>chatbot.chat\<close> is a string in this model; a request that passes validation with
  a truthy identifier of another type ends in \<open>NonStringUserId\<close>, outside of what is
  modelled.
\<close>

definition post_api_chat ::
    "completion \<Rightarrow> personality \<Rightarrow> request_body \<Rightarrow> world \<Rightarrow> http_response \<times> world" where
  "post_api_chat groq P body w =
     (if falsy (body_userId body) \<or> falsy (body_message body)
      then (Json400 ''Missing required fields'' ''Both userId and message are required'', w)
      else
        case body_message body of
          String msg \<Rightarrow>
            if length (trim msg) = 0
            then (Json400 ''Invalid message'' ''Message must be a non-empty string'', w)
            else if length msg > 500
            then (Json400 ''Message too long'' ''Message must be 500 characters or less'', w)
            else
              (case body_userId body of
                 String uid \<Rightarrow>
                   (case chat groq P uid (trim msg) w of
                      (Inr response, w') \<Rightarrow> (Json200 response, w')
                    | (Inl error, w') \<Rightarrow>
                        (Json500 ''Internal server error''
                                 ''Something went wrong processing your message'', w'))
               | _ \<Rightarrow> (NonStringUserId, w))
        | _ \<Rightarrow> (Json400 ''Invalid message'' ''Message must be a non-empty string'', w))"


section \<open>The tone detector as the specification words it\<close>

text \<open>
  For comparison with \<open>detectTone\<close>, the specification's reading: a category is
  chosen when one of its keywords occurs in the lower-cased message (or, for excited,
  when the message has two exclamation marks in a row), the categories being tried in
  the order sad, excited, angry.
\<close>

definition keyword_occurs :: "string list \<Rightarrow> string \<Rightarrow> bool" where
  "keyword_occurs kws s = (\<exists>k \<in> set kws. sublist k s)"

definition spec_detectTone :: "string \<Rightarrow> tone" where
  "spec_detectTone message =
     (let lowerMsg = toLowerCase message in
      if keyword_occurs sad_keywords lowerMsg then Sad
      else if keyword_occurs excited_keywords lowerMsg \<or> sublist ''!!'' message then Excited
      else if keyword_occurs angry_keywords lowerMsg then Angry
      else Neutral)"


section \<open>Example worlds\<close>

definition example_personality :: personality where
  "example_personality = BOT_PERSONALITY None None"

definition empty_world :: world where
  "empty_world =
     \<lparr>users = [], conversations = [], clock = (\<lambda>k. 1000 + k), reads = 0, uuids = 0,
      faults = [], trace = [], tie_break = (\<lambda>m. 0)\<rparr>"

text \<open>A store in which the counter of user \<open>u1\<close> says 7 while two of the three
  stored messages are theirs.\<close>

definition drifted_world :: world where
  "drifted_world =
     \<lparr>users = [\<lparr>userId = ''u1'', createdAt = 1, lastActive = 2, profile = default_profile,
                conversationCount = 0, totalMessages = 7\<rparr>],
      conversations =
        [\<lparr>messageId = 0, msg_userId = ''u1'', role = ''user'', content = ''hi'', timestamp = 10\<rparr>,
         \<lparr>messageId = 1, msg_userId = ''u2'', role = ''user'', content = ''yo'', timestamp = 11\<rparr>,
         \<lparr>messageId = 2, msg_userId = ''u1'', role = ''assistant'', content = ''hello'',
          timestamp = 12\<rparr>],
      clock = (\<lambda>k. 1000 + k), reads = 0, uuids = 3, faults = [], trace = [], tie_break = (\<lambda>m. 0)\<rparr>"


section \<open>Observations on the store\<close>

text \<open>What the store holds for a user: the profile record a \<^verbatim>\<open>findOne\<close> would
  return, its list of facts (empty when there is no record), and the user's messages
  in the order they were appended.\<close>

definition lookup_user :: "world \<Rightarrow> string \<Rightarrow> user option" where
  "lookup_user w uid = find (\<lambda>u. userId u = uid) (users w)"


definition user_messages :: "world \<Rightarrow> string \<Rightarrow> message list" where
  "user_messages w uid = filter (\<lambda>m. msg_userId m = uid) (conversations w)"

text \<open>Three messages M1, M2, M3 of user \<open>u1\<close>, appended in that order.\<close>

definition history_world :: world where
  "history_world =
     \<lparr>users = [],
      conversations =
        [\<lparr>messageId = 0, msg_userId = ''u1'', role = ''user'', content = ''M1'', timestamp = 10\<rparr>,
         \<lparr>messageId = 1, msg_userId = ''u1'', role = ''assistant'', content = ''M2'',
          timestamp = 11\<rparr>,
         \<lparr>messageId = 2, msg_userId = ''u1'', role = ''user'', content = ''M3'', timestamp = 12\<rparr>],
      clock = (\<lambda>k. 1000 + k), reads = 0, uuids = 3, faults = [], trace = [], tie_break = (\<lambda>m. 0)\<rparr>"




section \<open>Availability of the store\<close>

text \<open>The next \<open>n\<close> store operations succeed: none of the first \<open>n\<close> entries of the
  script is a failure.\<close>

definition available_for :: "nat \<Rightarrow> world \<Rightarrow> bool" where
  "available_for n w = (\<forall>e \<in> set (take n (faults w)). e = None)"

text \<open>Errors of the completion service and of the store, and two stores that fail
  at a chosen operation: the eighth (the first of \<open>extractAndSaveInfo\<close>, after the
  three of \<open>getContextForPrompt\<close> and the four of the two \<open>saveMessage\<close>) and the
  fourth (the insertion of the user's message).\<close>

definition rate_limit_error :: js_error where
  "rate_limit_error = JsError (Some ''rate limit exceeded'')"

definition api_key_error :: js_error where
  "api_key_error = JsError (Some ''Invalid API key'')"

definition storage_error :: js_error where
  "storage_error = JsError (Some ''connection timed out'')"

definition extraction_outage_world :: world where
  "extraction_outage_world =
     \<lparr>users = [], conversations = [], clock = (\<lambda>k. 1000 + k), reads = 0, uuids = 0,
      faults = [None, None, None, None, None, None, None, Some storage_error], trace = [],
      tie_break = (\<lambda>m. 0)\<rparr>"

definition persist_outage_world :: world where
  "persist_outage_world =
     \<lparr>users = [], conversations = [], clock = (\<lambda>k. 1000 + k), reads = 0, uuids = 0,
      faults = [None, None, None, Some storage_error], trace = [],
      tie_break = (\<lambda>m. 0)\<rparr>"


section \<open>The server: GET /api/user/:userId/history\<close>

text \<open>
  The handler of the history route.  \<open>parsed\<close> is \<^verbatim>\<open>parseInt(req.query.limit)\<close>,
  \<open>None\<close> when that is \<^verbatim>\<open>NaN\<close>; \<^verbatim>\<open>parsed || 50\<close> replaces \<^verbatim>\<open>NaN\<close> and 0 by
  50 and lets every other integer through, negative ones included.
\<close>

datatype history_response =
    HistoryJson string nat "message list"
  | HistoryMissingUserId
  | HistoryError

definition get_api_user_history ::
    "string \<Rightarrow> int option \<Rightarrow> world \<Rightarrow> history_response \<times> world" where
  "get_api_user_history uid parsed w =
     (let limit = (case parsed of None \<Rightarrow> 50 | Some n \<Rightarrow> if n = 0 then 50 else n) in
      if uid = [] then (HistoryMissingUserId, w)
      else
        case getConversationHistory uid limit w of
          (Inr history, w') \<Rightarrow> (HistoryJson uid (length history) history, w')
        | (Inl error, w') \<Rightarrow> (HistoryError, w'))"


text \<open>The store fails for the first time at its \<open>k\<close>-th coming operation (counted
  from 0), where the driver throws \<open>se\<close>.\<close>

definition fails_at :: "nat \<Rightarrow> js_error \<Rightarrow> world \<Rightarrow> bool" where
  "fails_at k se w = (available_for k w \<and> k < length (faults w) \<and> faults w ! k = Some se)"

text \<open>A store that fails at its sixth operation, the insertion of the assistant's
  message.\<close>

definition assistant_outage_world :: world where
  "assistant_outage_world =
     \<lparr>users = [], conversations = [], clock = (\<lambda>k. 1000 + k), reads = 0, uuids = 0,
      faults = [None, None, None, None, None, Some storage_error], trace = [],
      tie_break = (\<lambda>m. 0)\<rparr>"


text \<open>The profile sub-document the store holds for a user (the default profile when
  there is no record yet, as \<open>getUser\<close> would create it).\<close>

definition profile_of :: "world \<Rightarrow> string \<Rightarrow> profile" where
  "profile_of w uid = (case lookup_user w uid of None \<Rightarrow> default_profile | Some u \<Rightarrow> profile u)"


text \<open>Two context snapshots with the same profile fields and the same roles and
  contents of the recent messages, but different message identifiers, timestamps and
  counters.\<close>

definition snapshot_a :: prompt_context where
  "snapshot_a =
     \<lparr>userName = Some ''Alex'', userAge = Some 30, userLocation = None,
      ctx_interests = [''pizza''], ctx_preferences = [(''favoriteColor'', ''blue'')],
      ctx_facts = [''Loves cricket''],
      recentMessages =
        [\<lparr>messageId = 0, msg_userId = ''u1'', role = ''user'', content = ''hi'', timestamp = 10\<rparr>,
         \<lparr>messageId = 1, msg_userId = ''u1'', role = ''assistant'', content = ''hello'',
          timestamp = 11\<rparr>],
      ctx_conversationCount = 0, ctx_totalMessages = 2\<rparr>"

definition snapshot_b :: prompt_context where
  "snapshot_b =
     \<lparr>userName = Some ''Alex'', userAge = Some 30, userLocation = None,
      ctx_interests = [''pizza''], ctx_preferences = [(''favoriteColor'', ''blue'')],
      ctx_facts = [''Loves cricket''],
      recentMessages =
        [\<lparr>messageId = 7, msg_userId = ''u1'', role = ''user'', content = ''hi'', timestamp = 500\<rparr>,
         \<lparr>messageId = 8, msg_userId = ''u1'', role = ''assistant'', content = ''hello'',
          timestamp = 900\<rparr>],
      ctx_conversationCount = 3, ctx_totalMessages = 40\<rparr>"


section \<open>Characters and patterns: lemmas\<close>

lemma code_less_256: "code c < 256"
  by (simp add: code_def)

lemma code_char_of: "n < 256 \<Longrightarrow> code (char_of n) = n"
  by (simp add: code_def)

lemma code_inj: "code x = code y \<Longrightarrow> x = y"
  by (simp add: code_def)

lemma lower_char_not_upper: "\<not> is_upper_ascii (lower_char z)"
  using code_less_256 [of z]
  by (auto simp: lower_char_def is_upper_ascii_def code_char_of)

lemma canonicalize_eq_iff:
  assumes "is_lower_ascii y" and "\<not> is_upper_ascii x"
  shows "canonicalize True x = canonicalize True y \<longleftrightarrow> x = y"
proof
  assume eq: "canonicalize True x = canonicalize True y"
  show "x = y"
  proof (cases "is_lower_ascii x")
    case True
    with eq assms(1) have "code x - 32 = code y - 32" by (simp add: canonicalize_def)
    with True assms(1) have "code x = code y" unfolding is_lower_ascii_def by arith
    then show ?thesis by (rule code_inj)
  next
    case False
    with eq assms(1) have "code x = code y - 32" by (simp add: canonicalize_def)
    with assms(1) have "is_upper_ascii x" unfolding is_lower_ascii_def is_upper_ascii_def by arith
    with assms(2) show ?thesis by simp
  qed
qed simp

lemma lit_match_prefix:
  "\<forall>c \<in> set k. is_lower_ascii c \<Longrightarrow> \<forall>c \<in> set s. \<not> is_upper_ascii c \<Longrightarrow>
   lit_match True k s \<longleftrightarrow> prefix k s"
proof (induction True k s rule: lit_match.induct)
  case (1 s)
  then show ?case by simp
next
  case (2 c cs)
  then show ?case by simp
next
  case (3 c cs x xs)
  have "canonicalize True x = canonicalize True c \<longleftrightarrow> x = c"
    using "3.prems" by (intro canonicalize_eq_iff) simp_all
  with 3 show ?case by auto
qed

lemma lit_match_exact: "lit_match False k s \<longleftrightarrow> prefix k s"
proof (induction False k s rule: lit_match.induct)
  case (3 c cs x xs)
  have "canonicalize False x = canonicalize False c \<longleftrightarrow> x = c"
    by (auto simp: canonicalize_def dest: code_inj)
  with 3 show ?case by auto
qed simp_all

lemma matches_AnyOf:
  "kws \<noteq> [] \<Longrightarrow> matches ic (AnyOf kws) s \<noteq> [] \<longleftrightarrow> (\<exists>k \<in> set kws. lit_match ic k s)"
  by (induction kws rule: AnyOf.induct) auto

lemma regex_test_iff:
  "regex_test ic r s \<longleftrightarrow> (\<exists>t. suffix t s \<and> matches ic r t \<noteq> [])"
proof (induction s)
  case Nil
  then show ?case by (simp split: list.splits)
next
  case (Cons x xs)
  then show ?case by (auto simp: suffix_Cons split: list.splits)
qed

lemma sublist_iff_suffix_prefix: "sublist k s \<longleftrightarrow> (\<exists>t. suffix t s \<and> prefix k t)"
  by (auto simp: sublist_def suffix_def prefix_def) 

lemma regex_test_keywords:
  assumes "kws \<noteq> []" and "\<forall>k \<in> set kws. \<forall>c \<in> set k. is_lower_ascii c"
  shows "regex_test True (AnyOf kws) (toLowerCase m) \<longleftrightarrow> keyword_occurs kws (toLowerCase m)"
proof -
  have low: "\<forall>c \<in> set t. \<not> is_upper_ascii c" if "suffix t (toLowerCase m)" for t
  proof -
    have "set t \<subseteq> set (toLowerCase m)" using that by (rule set_mono_suffix)
    then show ?thesis by (auto simp: toLowerCase_def lower_char_not_upper)
  qed
  have "regex_test True (AnyOf kws) (toLowerCase m)
      \<longleftrightarrow> (\<exists>t. suffix t (toLowerCase m) \<and> (\<exists>k \<in> set kws. lit_match True k t))"
    using assms(1) by (simp add: regex_test_iff matches_AnyOf)
  also have "\<dots> \<longleftrightarrow> (\<exists>t. suffix t (toLowerCase m) \<and> (\<exists>k \<in> set kws. prefix k t))"
  proof -
    have "lit_match True k t \<longleftrightarrow> prefix k t"
      if "suffix t (toLowerCase m)" and "k \<in> set kws" for t k
      using that assms(2) low by (intro lit_match_prefix) blast+
    then show ?thesis by blast
  qed
  also have "\<dots> \<longleftrightarrow> keyword_occurs kws (toLowerCase m)"
    by (auto simp: keyword_occurs_def sublist_iff_suffix_prefix)
  finally show ?thesis .
qed

lemma matches_Star_nonempty: "matches ic (Star r) s \<noteq> []"
  by (subst matches.simps) simp

lemma matches_bangs: "matches False (AtLeast2 (Lit ''!'')) s \<noteq> [] \<longleftrightarrow> prefix ''!!'' s"
proof -
  have "matches False (AtLeast2 (Lit ''!'')) s \<noteq> []
     \<longleftrightarrow> lit_match False ''!'' s \<and> lit_match False ''!'' (drop 1 s)"
    by (simp add: AtLeast2_def matches_Star_nonempty)
  also have "\<dots> \<longleftrightarrow> prefix ''!'' s \<and> prefix ''!'' (drop 1 s)"
    by (simp only: lit_match_exact)
  also have "\<dots> \<longleftrightarrow> prefix ''!!'' s"
    by (cases s) (auto simp: prefix_Cons)
  finally show ?thesis .
qed

lemma regex_test_bangs: "regex_test False (AtLeast2 (Lit ''!'')) m \<longleftrightarrow> sublist ''!!'' m"
  by (simp only: regex_test_iff matches_bangs sublist_iff_suffix_prefix)

lemma sad_keywords_lower: "\<forall>k \<in> set sad_keywords. \<forall>c \<in> set k. is_lower_ascii c"
  by (simp add: sad_keywords_def is_lower_ascii_def code_def)

lemma excited_keywords_lower: "\<forall>k \<in> set excited_keywords. \<forall>c \<in> set k. is_lower_ascii c"
  by (simp add: excited_keywords_def is_lower_ascii_def code_def)

lemma angry_keywords_lower: "\<forall>k \<in> set angry_keywords. \<forall>c \<in> set k. is_lower_ascii c"
  by (simp add: angry_keywords_def is_lower_ascii_def code_def)


text \<open>Rules for running the matcher on a given input.  The function under a
  \<open>map\<close> is left alone until it meets an element of the list.\<close>

lemma map_weak_cong: "xs = ys \<Longrightarrow> map f xs = map f ys"
  by simp

lemmas eval_char = code_def is_upper_ascii_def is_lower_ascii_def is_digit_def is_space_def
  is_word_def lower_char_def upper_char_def canonicalize_def cls_match_def

lemmas eval_regex = matches.simps(6) Plus_def Opt_def AtLeast2_def captures_def


section \<open>Effects: lemmas\<close>

lemma bindIO_apply:
  "bindIO m f w = (case m w of (Inl e, w') \<Rightarrow> (Inl e, w') | (Inr x, w') \<Rightarrow> f x w')"
  by (simp add: bindIO_def)

lemma returnIO_apply: "returnIO x w = (Inr x, w)"
  by (simp add: returnIO_def)

lemma throwIO_apply: "throwIO e w = (Inl e, w)"
  by (simp add: throwIO_def)

lemma catchIO_apply:
  "catchIO m h w = (case m w of (Inl e, w') \<Rightarrow> h e w' | (Inr x, w') \<Rightarrow> (Inr x, w'))"
  by (simp add: catchIO_def)

lemmas io_simps = bindIO_apply returnIO_apply throwIO_apply catchIO_apply

lemma store_op_frame:
  "store_op ev w = (r, w') \<Longrightarrow>
     conversations w' = conversations w \<and> users w' = users w \<and> clock w' = clock w
     \<and> reads w' = reads w \<and> uuids w' = uuids w"
  by (auto simp: store_op_def Let_def split: list.splits option.splits)

lemma store_op_available:
  "faults w = [] \<Longrightarrow> store_op ev w = (Inr (), w\<lparr>trace := trace w @ [ev]\<rparr>)"
  by (simp add: store_op_def Let_def)

lemma getUser_conversations:
  "getUser uid w = (r, w') \<Longrightarrow> conversations w' = conversations w"
  by (auto simp: getUser_def users_findOne_def users_insertOne_def users_updateOne_def
        new_Date_def io_simps Let_def
      split: prod.splits sum.splits option.splits dest!: store_op_frame)

lemma getUser_available:
  "faults w = [] \<Longrightarrow> \<exists>u w'. getUser uid w = (Inr u, w') \<and> faults w' = []"
  by (auto simp: getUser_def users_findOne_def users_insertOne_def users_updateOne_def
        new_Date_def io_simps Let_def store_op_available split: option.splits)


section \<open>Tone detection\<close>

text \<open>
  Claim C5.  Tone detection is total with one of four results, and it decides
  first-match-wins in the order sad, excited, angry, neutral: \<open>detectTone\<close>, which runs
  the source's regular expressions, agrees on every message with the specification's
  reading \<open>spec_detectTone\<close> (sad as soon as a sad keyword occurs, whatever else
  occurs; otherwise excited on an excited keyword or on two exclamation marks in a
  row; otherwise angry on an angry keyword; otherwise neutral).  The message
  "I'm so sad but also excited!!" is classified sad.
\<close>

theorem detectTone_first_match_wins:
  "detectTone m = spec_detectTone m
   \<and> detectTone m \<in> {Sad, Excited, Angry, Neutral}
   \<and> detectTone ''I'm so sad but also excited!!'' = Sad"
proof -
  have ne: "sad_keywords \<noteq> []" "excited_keywords \<noteq> []" "angry_keywords \<noteq> []"
    by (simp_all add: sad_keywords_def excited_keywords_def angry_keywords_def)
  have refines: "detectTone m = spec_detectTone m"
    unfolding detectTone_def spec_detectTone_def Let_def
    by (simp only: regex_test_keywords [OF ne(1) sad_keywords_lower]
          regex_test_keywords [OF ne(2) excited_keywords_lower]
          regex_test_keywords [OF ne(3) angry_keywords_lower] regex_test_bangs)
  have four: "detectTone m \<in> {Sad, Excited, Angry, Neutral}"
    by (cases "detectTone m") simp_all
  have example: "detectTone ''I'm so sad but also excited!!'' = Sad"
    by (simp add: detectTone_def toLowerCase_def sad_keywords_def eval_char)
  from refines four example show ?thesis by blast
qed


section \<open>History reshaping\<close>

text \<open>
  Claim C10.  \<open>buildConversationHistory\<close> returns the empty list for \<^verbatim>\<open>null\<close>,
  \<^verbatim>\<open>undefined\<close> and the empty list of messages; for any list of messages it returns
  a list of the same length and order, in which the role \<^verbatim>\<open>user\<close> stays
  \<^verbatim>\<open>user\<close>, every other role becomes \<^verbatim>\<open>model\<close>, and the content is the text of
  the single part, unchanged.
\<close>

theorem buildConversationHistory_total:
  "buildConversationHistory JsNull = []
   \<and> buildConversationHistory JsUndefined = []
   \<and> buildConversationHistory (JsArray []) = []
   \<and> length (buildConversationHistory (JsArray msgs)) = length msgs
   \<and> map h_role (buildConversationHistory (JsArray msgs))
       = map (\<lambda>m. if role m = ''user'' then ''user'' else ''model'') msgs
   \<and> map parts (buildConversationHistory (JsArray msgs)) = map (\<lambda>m. [content m]) msgs"
  by (simp add: buildConversationHistory_def comp_def)


section \<open>Statistics\<close>

text \<open>
  Claim C9.  Whenever \<open>getUserStats\<close> returns, the \<^verbatim>\<open>totalMessages\<close> it reports is
  the number of records of that user in the conversations collection, whatever the
  profile's own \<^verbatim>\<open>totalMessages\<close> counter says; and on an available store it does
  return.
\<close>

theorem getUserStats_counts_documents:
  "(\<forall>st w'. getUserStats uid w = (Inr st, w') \<longrightarrow>
      st_totalMessages st = length (filter (\<lambda>m. msg_userId m = uid) (conversations w)))
   \<and> (faults w = [] \<longrightarrow> (\<exists>st w'. getUserStats uid w = (Inr st, w')))"
proof (intro conjI allI impI)
  fix st w'
  assume "getUserStats uid w = (Inr st, w')"
  then show "st_totalMessages st = length (filter (\<lambda>m. msg_userId m = uid) (conversations w))"
    by (auto simp: getUserStats_def conversations_countDocuments_def io_simps
        split: prod.splits sum.splits dest!: store_op_frame getUser_conversations)
next
  assume "faults w = []"
  then obtain u w1 where "getUser uid w = (Inr u, w1)" and "faults w1 = []"
    using getUser_available by blast
  then show "\<exists>st w'. getUserStats uid w = (Inr st, w')"
    by (simp add: getUserStats_def conversations_countDocuments_def io_simps store_op_available)
qed

theorem getUserStats_counts_documents_witness:
  "faults drifted_world = []
   \<and> map totalMessages (users drifted_world) = [7]
   \<and> (\<exists>st w'. getUserStats ''u1'' drifted_world = (Inr st, w') \<and> st_totalMessages st = 2)"
  using getUserStats_counts_documents [of "''u1''" drifted_world]
  by (auto simp: drifted_world_def)


section \<open>Validation of a turn\<close>

text \<open>
  Claim C8.  A request whose message is empty or only white space, or longer than
  500 characters, is answered with status 400 and the world is left exactly as it
  was: no store operation and no completion call was made (each of them would have
  extended the trace).
\<close>

theorem post_api_chat_rejects_malformed:
  assumes "body_message body = String msg"
    and "trim msg = [] \<or> length msg > 500"
  shows "\<exists>err detail. post_api_chat groq P body w = (Json400 err detail, w)"
  using assms by (auto simp: post_api_chat_def)

theorem post_api_chat_rejects_malformed_witness:
  "trim ''   '' = []
   \<and> (\<exists>err detail.
        post_api_chat (\<lambda>_. Inr ''hello'') example_personality
          \<lparr>body_userId = String ''u1'', body_message = String ''   ''\<rparr> empty_world
        = (Json400 err detail, empty_world))"
proof -
  have blank: "trim ''   '' = []"
    by (simp add: trim_def is_space_def code_def)
  from post_api_chat_rejects_malformed
         [of "\<lparr>body_userId = String ''u1'', body_message = String ''   ''\<rparr>" "''   ''"
             "\<lambda>_. Inr ''hello''" example_personality empty_world]
       blank
  show ?thesis by simp
qed

section \<open>Appending a fact\<close>

lemma find_update_first:
  "(\<And>x. userId (g x) = userId x) \<Longrightarrow>
   find (\<lambda>u. userId u = v) (update_first (\<lambda>u. userId u = uid) g xs)
     = (if v = uid then map_option g (find (\<lambda>u. userId u = uid) xs)
        else find (\<lambda>u. userId u = v) xs)"
  by (induction xs) auto

lemma find_snoc:
  "find P (xs @ [x]) = (case find P xs of Some y \<Rightarrow> Some y | None \<Rightarrow> if P x then Some x else None)"
  by (induction xs) auto







section \<open>One turn: lemmas\<close>

lemma available_for_fields [simp]:
  "available_for n (w\<lparr>users := us\<rparr>) = available_for n w"
  "available_for n (w\<lparr>conversations := cs\<rparr>) = available_for n w"
  "available_for n (w\<lparr>reads := k\<rparr>) = available_for n w"
  "available_for n (w\<lparr>uuids := k\<rparr>) = available_for n w"
  "available_for n (w\<lparr>trace := tr\<rparr>) = available_for n w"
  by (simp_all add: available_for_def)

lemma store_op_ok:
  assumes "available_for (Suc n) w"
  shows "\<exists>w'. store_op ev w = (Inr (), w') \<and> available_for n w'
           \<and> users w' = users w \<and> conversations w' = conversations w
           \<and> clock w' = clock w \<and> reads w' = reads w \<and> uuids w' = uuids w"
proof (cases "faults w")
  case Nil
  then show ?thesis by (simp add: store_op_def Let_def available_for_def)
next
  case (Cons a fs)
  with assms have "a = None" and "\<forall>e \<in> set (take n fs). e = None"
    by (simp_all add: available_for_def)
  with Cons show ?thesis by (simp add: store_op_def Let_def available_for_def)
qed

lemma getUser_ok:
  assumes "available_for (Suc (Suc n)) w"
  shows "\<exists>u w'. getUser uid w = (Inr u, w') \<and> available_for n w'"
proof -
  from store_op_ok [OF assms, of "FindOp Users"]
  obtain w1 where w1: "store_op (FindOp Users) w = (Inr (), w1) \<and> available_for (Suc n) w1
           \<and> users w1 = users w \<and> conversations w1 = conversations w
           \<and> clock w1 = clock w \<and> reads w1 = reads w \<and> uuids w1 = uuids w"
    by (rule exE)
  show ?thesis
  proof (cases "find (\<lambda>u. userId u = uid) (users w)")
    case None
    let ?w2 = "w1\<lparr>reads := Suc (Suc (reads w1))\<rparr>"
    from w1 have "available_for (Suc n) ?w2" by simp
    from store_op_ok [OF this, of "InsertOp Users"]
    obtain w3 where w3: "store_op (InsertOp Users) ?w2 = (Inr (), w3) \<and> available_for n w3
           \<and> users w3 = users ?w2 \<and> conversations w3 = conversations ?w2
           \<and> clock w3 = clock ?w2 \<and> reads w3 = reads ?w2 \<and> uuids w3 = uuids ?w2"
      by (rule exE)
    with w1 None show ?thesis
      by (simp add: getUser_def users_findOne_def users_insertOne_def new_Date_def io_simps Let_def)
  next
    case (Some u)
    let ?w2 = "w1\<lparr>reads := Suc (reads w1)\<rparr>"
    from w1 have "available_for (Suc n) ?w2" by simp
    from store_op_ok [OF this, of "UpdateOp Users"]
    obtain w3 where w3: "store_op (UpdateOp Users) ?w2 = (Inr (), w3) \<and> available_for n w3
           \<and> users w3 = users ?w2 \<and> conversations w3 = conversations ?w2
           \<and> clock w3 = clock ?w2 \<and> reads w3 = reads ?w2 \<and> uuids w3 = uuids ?w2"
      by (rule exE)
    with w1 Some show ?thesis
      by (simp add: getUser_def users_findOne_def users_updateOne_def new_Date_def io_simps Let_def)
  qed
qed

lemma getConversationHistory_ok:
  assumes "available_for (Suc n) w"
  shows "\<exists>r w'. getConversationHistory uid limit w = (Inr r, w') \<and> available_for n w'"
proof -
  from store_op_ok [OF assms, of "FindOp Conversations"]
  obtain w1 where "store_op (FindOp Conversations) w = (Inr (), w1) \<and> available_for n w1
           \<and> users w1 = users w \<and> conversations w1 = conversations w
           \<and> clock w1 = clock w \<and> reads w1 = reads w \<and> uuids w1 = uuids w"
    by (rule exE)
  then show ?thesis
    by (simp add: getConversationHistory_def conversations_find_sorted_def io_simps)
qed

lemma getContextForPrompt_ok:
  assumes "available_for (Suc (Suc (Suc n))) w"
  shows "\<exists>c w'. getContextForPrompt uid w = (Inr c, w') \<and> available_for n w'"
proof -
  from getUser_ok [OF assms, of uid]
  obtain u w1 where u: "getUser uid w = (Inr u, w1) \<and> available_for (Suc n) w1" by (elim exE)
  then have "available_for (Suc n) w1" by simp
  from getConversationHistory_ok [OF this, of uid 5]
  obtain r w2 where "getConversationHistory uid 5 w1 = (Inr r, w2) \<and> available_for n w2"
    by (elim exE)
  with u show ?thesis by (simp add: getContextForPrompt_def io_simps)
qed

lemma saveMessage_ok:
  assumes "available_for (Suc (Suc n)) w"
  shows "\<exists>w'. saveMessage uid r c w = (Inr (), w') \<and> available_for n w'"
proof -
  let ?w0 = "w\<lparr>uuids := Suc (uuids w), reads := Suc (reads w)\<rparr>"
  from assms have "available_for (Suc (Suc n)) ?w0" by simp
  from store_op_ok [OF this, of "InsertOp Conversations"]
  obtain w1 where w1: "store_op (InsertOp Conversations) ?w0 = (Inr (), w1) \<and> available_for (Suc n) w1
           \<and> users w1 = users ?w0 \<and> conversations w1 = conversations ?w0
           \<and> clock w1 = clock ?w0 \<and> reads w1 = reads ?w0 \<and> uuids w1 = uuids ?w0"
    by (rule exE)
  let ?m = "\<lparr>messageId = uuids w, msg_userId = uid, role = r, content = c, timestamp = clock w (reads w)\<rparr>"
  let ?w2 = "w1\<lparr>conversations := conversations w1 @ [?m], reads := Suc (reads w1)\<rparr>"
  from w1 have "available_for (Suc n) ?w2" by simp
  from store_op_ok [OF this, of "UpdateOp Users"]
  obtain w3 where w3: "store_op (UpdateOp Users) ?w2 = (Inr (), w3) \<and> available_for n w3
           \<and> users w3 = users ?w2 \<and> conversations w3 = conversations ?w2
           \<and> clock w3 = clock ?w2 \<and> reads w3 = reads ?w2 \<and> uuids w3 = uuids ?w2"
    by (rule exE)
  with w1 show ?thesis
    by (simp add: saveMessage_def uuidv4_def new_Date_def conversations_insertOne_def
          users_updateOne_def io_simps)
qed

lemma extractAndSaveInfo_returns: "\<exists>w'. extractAndSaveInfo uid msg w = (Inr (), w')"
  by (simp add: extractAndSaveInfo_def catchIO_apply returnIO_apply split: prod.splits sum.splits)

lemma convert_history_map:
  "convert_history (map (\<lambda>msg. \<lparr>h_role = (if role msg = ''user'' then ''user'' else ''model''),
                                  parts = [content msg]\<rparr>) ms)
     = Inr (map (\<lambda>m. \<lparr>cm_role = (if role m = ''user'' then ''user'' else ''assistant''),
                       cm_content = content m\<rparr>) ms)"
  by (induction ms) simp_all

lemma convert_history_build:
  "convert_history (buildConversationHistory (JsArray ms))
     = Inr (map (\<lambda>m. \<lparr>cm_role = (if role m = ''user'' then ''user'' else ''assistant''),
                       cm_content = content m\<rparr>) ms)"
  by (simp add: buildConversationHistory_def convert_history_map)

lemma getUser_users:
  "getUser uid w = (r, w') \<Longrightarrow>
     users w' = users w
     \<or> (lookup_user w uid = None \<and> (\<exists>t1 t2. users w' = users w @
            [\<lparr>userId = uid, createdAt = t1, lastActive = t2, profile = default_profile,
              conversationCount = 0, totalMessages = 0\<rparr>]))
     \<or> (\<exists>t. users w' = update_first (\<lambda>u. userId u = uid) (\<lambda>u. u\<lparr>lastActive := t\<rparr>) (users w))"
  by (auto simp: getUser_def users_findOne_def users_insertOne_def users_updateOne_def
        new_Date_def io_simps Let_def lookup_user_def
      split: prod.splits sum.splits option.splits dest!: store_op_frame)

lemma getConversationHistory_frame:
  "getConversationHistory uid limit w = (r, w') \<Longrightarrow>
     users w' = users w \<and> conversations w' = conversations w"
  by (auto simp: getConversationHistory_def conversations_find_sorted_def io_simps
      split: prod.splits sum.splits dest!: store_op_frame)

lemma getContextForPrompt_frame:
  assumes "getContextForPrompt uid w = (r, w')"
  shows "conversations w' = conversations w
     \<and> (users w' = users w
     \<or> (lookup_user w uid = None \<and> (\<exists>t1 t2. users w' = users w @
            [\<lparr>userId = uid, createdAt = t1, lastActive = t2, profile = default_profile,
              conversationCount = 0, totalMessages = 0\<rparr>]))
     \<or> (\<exists>t. users w' = update_first (\<lambda>u. userId u = uid) (\<lambda>u. u\<lparr>lastActive := t\<rparr>) (users w)))"
proof -
  obtain r1 w1 where g: "getUser uid w = (r1, w1)" by (cases "getUser uid w")
  note u1 = getUser_users [OF g] and c1 = getUser_conversations [OF g]
  show ?thesis
  proof (cases r1)
    case (Inl e)
    with g assms have "w' = w1" by (simp add: getContextForPrompt_def io_simps)
    with u1 c1 show ?thesis by simp
  next
    case (Inr u)
    obtain r2 w2 where h: "getConversationHistory uid 5 w1 = (r2, w2)"
      by (cases "getConversationHistory uid 5 w1")
    with g Inr assms have "w' = w2"
      by (cases r2) (simp_all add: getContextForPrompt_def io_simps)
    with getConversationHistory_frame [OF h] u1 c1 show ?thesis by simp
  qed
qed

lemma chat_failure_cases:
  assumes "\<And>req. groq req = Inl e"
  shows "chat groq P uid msg w =
     (case getContextForPrompt uid w of
        (Inl e', w1) \<Rightarrow> (Inr (getErrorResponse e'), w1)
      | (Inr c, w1) \<Rightarrow> (Inr (getErrorResponse e), w1\<lparr>trace := trace w1 @ [CompletionCall]\<rparr>))"
  by (simp add: chat_def io_simps Let_def startChat_def convert_history_build sendMessage_def assms
      split: prod.splits sum.splits)

lemma getErrorResponse_nonempty: "getErrorResponse e \<noteq> []"
  by (simp add: getErrorResponse_def)

lemma chat_reply:
  assumes av: "available_for 7 w" and gen: "\<And>req. groq req = Inr reply"
  shows "\<exists>w'. chat groq P uid msg w = (Inr reply, w')"
proof -
  from av have "available_for (Suc (Suc (Suc (Suc (Suc (Suc (Suc 0))))))) w"
    by (simp add: eval_nat_numeral)
  from getContextForPrompt_ok [OF this, of uid]
  obtain c w1 where ctx: "getContextForPrompt uid w = (Inr c, w1)
      \<and> available_for (Suc (Suc (Suc (Suc 0)))) w1"
    by (elim exE)
  let ?w2 = "w1\<lparr>trace := trace w1 @ [CompletionCall]\<rparr>"
  from ctx have "available_for (Suc (Suc (Suc (Suc 0)))) ?w2" by simp
  from saveMessage_ok [OF this, of uid "''user''" msg]
  obtain w3 where s1: "saveMessage uid ''user'' msg ?w2 = (Inr (), w3)
      \<and> available_for (Suc (Suc 0)) w3"
    by (elim exE)
  then have "available_for (Suc (Suc 0)) w3" by simp
  from saveMessage_ok [OF this, of uid "''assistant''" reply]
  obtain w4 where s2: "saveMessage uid ''assistant'' reply w3 = (Inr (), w4) \<and> available_for 0 w4"
    by (elim exE)
  from extractAndSaveInfo_returns [of uid msg w4]
  obtain w5 where ex: "extractAndSaveInfo uid msg w4 = (Inr (), w5)" by (elim exE)
  from ctx s1 s2 ex have "chat groq P uid msg w = (Inr reply, w5)"
    by (simp add: chat_def io_simps Let_def startChat_def convert_history_build sendMessage_def gen)
  then show ?thesis by (rule exI)
qed


text \<open>
  Claim C2, as amended.  When the completion call fails with error \<open>e\<close>, the turn
  returns a non-empty apology string and writes no message: the conversations
  collection is as before, and the users collection is as before or differs by
  what \<open>getUser\<close> does while loading the context (the default profile of a new
  user appended, or \<^verbatim>\<open>lastActive\<close> of the user refreshed).  When the store was
  available for the three operations of loading the context, the apology is
  \<open>getErrorResponse e\<close>: the configuration message when the error message mentions
  "API key"; otherwise the "give me a moment" message when it mentions "quota" or
  "rate limit"; otherwise the "trouble connecting" message when it mentions
  "network"; otherwise the neutral apology.
\<close>

theorem chat_generate_failure:
  assumes "\<And>req. groq req = Inl e"
  shows "\<exists>r w'. chat groq P uid msg w = (Inr r, w')
       \<and> r \<noteq> []
       \<and> (available_for 3 w \<longrightarrow> r = getErrorResponse e)
       \<and> conversations w' = conversations w
       \<and> (users w' = users w
          \<or> (lookup_user w uid = None \<and> (\<exists>t1 t2. users w' = users w @
                [\<lparr>userId = uid, createdAt = t1, lastActive = t2, profile = default_profile,
                  conversationCount = 0, totalMessages = 0\<rparr>]))
          \<or> (\<exists>t. users w' = update_first (\<lambda>u. userId u = uid) (\<lambda>u. u\<lparr>lastActive := t\<rparr>) (users w)))
       \<and> getErrorResponse e =
           (if message_includes e ''API key''
            then ''Oops! There's an issue with my configuration. Let me know and I'll get it fixed!''
            else if message_includes e ''quota'' \<or> message_includes e ''rate limit''
            then ''Whoa, I've been chatting a lot today! Give me a moment to catch my breath. ''
                 @ SWEAT_SMILE
            else if message_includes e ''network''
            then ''Hmm, seems like I'm having trouble connecting. Can you try again in a sec?''
            else ''Sorry, I got a bit confused there. Mind rephrasing that?'')"
proof -
  obtain rc w1 where ctx: "getContextForPrompt uid w = (rc, w1)"
    by (cases "getContextForPrompt uid w")
  note frame = getContextForPrompt_frame [OF ctx]
  have cat: "getErrorResponse e =
           (if message_includes e ''API key''
            then ''Oops! There's an issue with my configuration. Let me know and I'll get it fixed!''
            else if message_includes e ''quota'' \<or> message_includes e ''rate limit''
            then ''Whoa, I've been chatting a lot today! Give me a moment to catch my breath. ''
                 @ SWEAT_SMILE
            else if message_includes e ''network''
            then ''Hmm, seems like I'm having trouble connecting. Can you try again in a sec?''
            else ''Sorry, I got a bit confused there. Mind rephrasing that?'')"
    by (simp add: getErrorResponse_def)
  show ?thesis
  proof (cases rc)
    case (Inl e')
    have run: "chat groq P uid msg w = (Inr (getErrorResponse e'), w1)"
      using ctx Inl by (simp add: chat_failure_cases [of groq e, OF assms])
    have "\<not> available_for 3 w"
    proof
      assume "available_for 3 w"
      then have "available_for (Suc (Suc (Suc 0))) w" by (simp add: eval_nat_numeral)
      from getContextForPrompt_ok [OF this, of uid] ctx Inl show False by simp
    qed
    with run frame cat getErrorResponse_nonempty [of e'] show ?thesis
      by (intro exI [of _ "getErrorResponse e'"] exI [of _ w1]) simp
  next
    case (Inr c)
    have run: "chat groq P uid msg w
        = (Inr (getErrorResponse e), w1\<lparr>trace := trace w1 @ [CompletionCall]\<rparr>)"
      using ctx Inr by (simp add: chat_failure_cases [of groq e, OF assms])
    with frame cat getErrorResponse_nonempty [of e] show ?thesis
      by (intro exI [of _ "getErrorResponse e"]
                exI [of _ "w1\<lparr>trace := trace w1 @ [CompletionCall]\<rparr>"]) simp
  qed
qed

lemma getErrorResponse_rate_limit:
  "getErrorResponse rate_limit_error
     = ''Whoa, I've been chatting a lot today! Give me a moment to catch my breath. '' @ SWEAT_SMILE"
  by (simp add: getErrorResponse_def message_includes_def rate_limit_error_def)

theorem chat_generate_failure_witness:
  "(\<forall>req. (\<lambda>_. Inl rate_limit_error) (req :: chat_message list) = (Inl rate_limit_error :: js_error + string))
   \<and> (\<exists>w'. chat (\<lambda>_. Inl rate_limit_error) example_personality ''u1'' ''hello'' empty_world
          = (Inr (''Whoa, I've been chatting a lot today! Give me a moment to catch my breath. ''
                   @ SWEAT_SMILE), w')
        \<and> conversations w' = [])"
proof -
  have av: "available_for 3 empty_world" by (simp add: available_for_def empty_world_def)
  have "\<exists>r w'. chat (\<lambda>_. Inl rate_limit_error) example_personality ''u1'' ''hello'' empty_world
          = (Inr r, w')
       \<and> (available_for 3 empty_world \<longrightarrow> r = getErrorResponse rate_limit_error)
       \<and> conversations w' = conversations empty_world"
    using chat_generate_failure [of "\<lambda>_. Inl rate_limit_error" rate_limit_error
         example_personality "''u1''" "''hello''" empty_world, OF refl]
    by (elim exE conjE) (intro exI conjI)
  then obtain r w' where run: "chat (\<lambda>_. Inl rate_limit_error) example_personality ''u1'' ''hello'' empty_world = (Inr r, w')"
    and r: "available_for 3 empty_world \<longrightarrow> r = getErrorResponse rate_limit_error"
    and c: "conversations w' = conversations empty_world"
    by (elim exE conjE)
  from r av have "r = getErrorResponse rate_limit_error" by simp
  with run c getErrorResponse_rate_limit show ?thesis
    by (simp add: empty_world_def)
qed

text \<open>The claim as stated fails for an error that is neither a rate-limit nor a
  network error by the code's tests but mentions "API key": the reply is the
  configuration message, not the neutral apology; and for a new user the failed turn
  has created the profile record.\<close>

theorem chat_api_key_error_counterexample:
  "\<not> message_includes api_key_error ''quota''
   \<and> \<not> message_includes api_key_error ''rate limit''
   \<and> \<not> message_includes api_key_error ''network''
   \<and> fst (chat (\<lambda>_. Inl api_key_error) example_personality ''u1'' ''hello'' empty_world)
       = Inr ''Oops! There's an issue with my configuration. Let me know and I'll get it fixed!''
   \<and> users empty_world = []
   \<and> map userId (users (snd (chat (\<lambda>_. Inl api_key_error) example_personality ''u1'' ''hello''
                                empty_world))) = [''u1'']"
proof -
  have inc: "\<not> message_includes api_key_error ''quota''"
       "\<not> message_includes api_key_error ''rate limit''"
       "\<not> message_includes api_key_error ''network''"
       "message_includes api_key_error ''API key''"
    by (simp_all add: message_includes_def api_key_error_def)
  have ctx: "\<exists>c w1. getContextForPrompt ''u1'' empty_world = (Inr c, w1) \<and> map userId (users w1) = [''u1'']"
    by (simp add: getContextForPrompt_def getUser_def users_findOne_def users_insertOne_def
          getConversationHistory_def conversations_find_sorted_def new_Date_def io_simps
          store_op_def Let_def empty_world_def)
  then obtain c w1 where c: "getContextForPrompt ''u1'' empty_world = (Inr c, w1)"
     and u: "map userId (users w1) = [''u1'']" by (elim exE conjE)
  have run: "chat (\<lambda>_. Inl api_key_error) example_personality ''u1'' ''hello'' empty_world
      = (Inr (getErrorResponse api_key_error), w1\<lparr>trace := trace w1 @ [CompletionCall]\<rparr>)"
    using c by (simp add: chat_failure_cases [of "\<lambda>_. Inl api_key_error" api_key_error])
  have "getErrorResponse api_key_error
      = ''Oops! There's an issue with my configuration. Let me know and I'll get it fixed!''"
    using inc by (simp add: getErrorResponse_def)
  with run u inc show ?thesis by (simp add: empty_world_def)
qed

section \<open>History retrieval\<close>

lemma store_op_tie_break: "store_op ev w = (r, w') \<Longrightarrow> tie_break w' = tie_break w"
  by (auto simp: store_op_def Let_def split: list.splits option.splits)

lemma getConversationHistory_result:
  assumes "getConversationHistory uid limit w = (Inr r, w')"
  shows "r = rev (cursor_limit limit (sort_timestamp_desc (tie_break w) (user_messages w uid)))"
proof -
  obtain r0 w0 where op: "store_op (FindOp Conversations) w = (r0, w0)"
    by (cases "store_op (FindOp Conversations) w")
  from store_op_frame [OF op] store_op_tie_break [OF op]
  have same: "conversations w0 = conversations w" "tie_break w0 = tie_break w" by simp_all
  from assms op same show ?thesis
    by (cases r0)
       (simp_all add: getConversationHistory_def conversations_find_sorted_def io_simps
          user_messages_def)
qed

lemma rev_limit_desc:
  "0 < limit \<Longrightarrow> rev (cursor_limit limit (sort_timestamp_desc tie ms))
     = drop (length ms - nat limit) (sort_key (\<lambda>m. (timestamp m, tie m)) ms)"
  by (simp add: cursor_limit_def sort_timestamp_desc_def rev_take)

lemma sorted_fst_of_pairs:
  "sorted (map (\<lambda>m. (f m, g m :: nat)) xs) \<Longrightarrow> sorted (map (f :: 'a \<Rightarrow> nat) xs)"
  by (induction xs) (auto simp: less_eq_prod_def)

lemma strict_sorted_pairs:
  "sorted_wrt (<) (map (f :: 'a \<Rightarrow> nat) xs) \<Longrightarrow> sorted (map (\<lambda>m. (f m, g m :: nat)) xs)"
  by (induction xs) (auto simp: less_eq_prod_def)

text \<open>For a positive \<open>limit\<close> the result is the last \<open>limit\<close> of the user's messages
  in ascending order of timestamp, whatever order the store gives to equal
  timestamps: at most \<open>limit\<close> of them, oldest first, and the last \<open>limit\<close> appended
  when the timestamps increase strictly in the order of appending.\<close>

lemma getConversationHistory_positive_limit:
  assumes "0 < limit" and "getConversationHistory uid limit w = (Inr r, w')"
  shows "r = drop (length (user_messages w uid) - nat limit)
                  (sort_key (\<lambda>m. (timestamp m, tie_break w m)) (user_messages w uid))
     \<and> int (length r) \<le> limit
     \<and> sorted (map timestamp r)
     \<and> (sorted_wrt (<) (map timestamp (user_messages w uid)) \<longrightarrow>
          r = drop (length (user_messages w uid) - nat limit) (user_messages w uid))"
proof -
  let ?ms = "user_messages w uid"
  let ?key = "\<lambda>m. (timestamp m, tie_break w m)"
  have r: "r = drop (length ?ms - nat limit) (sort_key ?key ?ms)"
    using getConversationHistory_result [OF assms(2)] rev_limit_desc [OF assms(1)] by simp
  have len: "int (length r) \<le> limit" using assms(1) r by simp
  have "sorted (map ?key (sort_key ?key ?ms))" by simp
  then have "sorted (map timestamp (sort_key ?key ?ms))" by (rule sorted_fst_of_pairs)
  then have srt: "sorted (map timestamp r)"
    unfolding r drop_map [symmetric] by (rule sorted_wrt_drop)
  have strict: "r = drop (length ?ms - nat limit) ?ms" if "sorted_wrt (<) (map timestamp ?ms)"
  proof -
    from that have "sorted (map ?key ?ms)" by (rule strict_sorted_pairs)
    then have "sort_key ?key ?ms = ?ms" by (rule sort_key_id_if_sorted)
    with r show ?thesis by simp
  qed
  from r len srt strict show ?thesis by blast
qed

text \<open>
  Claim C4.  With the messages M1, M2, M3 of a user stored in that order, the limit 2
  gives [M2, M3], as claimed.  But \<open>limit\<close> is not a maximum for every value the
  method can receive: the limit 0 gives all three messages, and the request
  \<^verbatim>\<open>GET /api/user/u1/history?limit=-2\<close>, whose limit the route passes on, gives
  two messages.
\<close>

theorem getConversationHistory_limit_not_a_maximum:
  "map content (user_messages history_world ''u1'') = [''M1'', ''M2'', ''M3'']
   \<and> (\<exists>r w'. getConversationHistory ''u1'' 2 history_world = (Inr r, w')
         \<and> map content r = [''M2'', ''M3''])
   \<and> (\<exists>r w'. getConversationHistory ''u1'' 0 history_world = (Inr r, w')
         \<and> map content r = [''M1'', ''M2'', ''M3''])
   \<and> (\<exists>r w'. get_api_user_history ''u1'' (Some (- 2)) history_world = (HistoryJson ''u1'' 2 r, w')
         \<and> map content r = [''M2'', ''M3''])"
  by (simp add: get_api_user_history_def getConversationHistory_def conversations_find_sorted_def
        io_simps store_op_def history_world_def cursor_limit_def sort_timestamp_desc_def
        user_messages_def)

section \<open>One turn: failures of the store\<close>

lemma fails_at_fields [simp]:
  "fails_at k se (w\<lparr>users := us\<rparr>) = fails_at k se w"
  "fails_at k se (w\<lparr>conversations := cs\<rparr>) = fails_at k se w"
  "fails_at k se (w\<lparr>reads := n\<rparr>) = fails_at k se w"
  "fails_at k se (w\<lparr>uuids := n\<rparr>) = fails_at k se w"
  "fails_at k se (w\<lparr>trace := tr\<rparr>) = fails_at k se w"
  by (simp_all add: fails_at_def)

lemma available_for_mono: "n \<le> k \<Longrightarrow> available_for k w \<Longrightarrow> available_for n w"
proof -
  assume le: "n \<le> k" and av: "available_for k w"
  have "take n (faults w) = take n (take k (faults w))" using le by (simp add: min_def)
  then have "set (take n (faults w)) \<subseteq> set (take k (faults w))"
    using set_take_subset [of n "take k (faults w)"] by simp
  with av show ?thesis by (auto simp: available_for_def)
qed

lemma store_op_fails_now:
  assumes "fails_at 0 se w"
  shows "\<exists>w'. store_op ev w = (Inl se, w')"
proof (cases "faults w")
  case Nil
  with assms show ?thesis by (simp add: fails_at_def)
next
  case (Cons a fs)
  with assms have "a = Some se" by (simp add: fails_at_def)
  with Cons show ?thesis by (simp add: store_op_def Let_def)
qed

lemma store_op_fails_later:
  assumes "fails_at (Suc k) se w"
  shows "\<exists>w'. store_op ev w = (Inr (), w') \<and> fails_at k se w'"
proof (cases "faults w")
  case Nil
  with assms show ?thesis by (simp add: fails_at_def)
next
  case (Cons a fs)
  with assms have "a = None" and "\<forall>e \<in> set (take k fs). e = None" and "k < length fs"
    and "fs ! k = Some se"
    by (simp_all add: fails_at_def available_for_def)
  with Cons show ?thesis by (simp add: store_op_def Let_def fails_at_def available_for_def)
qed

lemma getUser_fails_later:
  assumes "fails_at (Suc (Suc k)) se w"
  shows "\<exists>u w'. getUser uid w = (Inr u, w') \<and> fails_at k se w'"
proof -
  from store_op_fails_later [OF assms, of "FindOp Users"]
  obtain w1 where w1: "store_op (FindOp Users) w = (Inr (), w1) \<and> fails_at (Suc k) se w1"
    by (rule exE)
  from w1 have op1: "store_op (FindOp Users) w = (Inr (), w1)" by simp
  from store_op_frame [OF op1] have u1: "users w1 = users w" by simp
  show ?thesis
  proof (cases "find (\<lambda>u. userId u = uid) (users w)")
    case None
    let ?w2 = "w1\<lparr>reads := Suc (Suc (reads w1))\<rparr>"
    from w1 have "fails_at (Suc k) se ?w2" by simp
    from store_op_fails_later [OF this, of "InsertOp Users"]
    obtain w3 where w3: "store_op (InsertOp Users) ?w2 = (Inr (), w3) \<and> fails_at k se w3"
      by (rule exE)
    with w1 u1 None show ?thesis
      by (simp add: getUser_def users_findOne_def users_insertOne_def new_Date_def io_simps Let_def)
  next
    case (Some u)
    let ?w2 = "w1\<lparr>reads := Suc (reads w1)\<rparr>"
    from w1 have "fails_at (Suc k) se ?w2" by simp
    from store_op_fails_later [OF this, of "UpdateOp Users"]
    obtain w3 where w3: "store_op (UpdateOp Users) ?w2 = (Inr (), w3) \<and> fails_at k se w3"
      by (rule exE)
    with w1 u1 Some show ?thesis
      by (simp add: getUser_def users_findOne_def users_updateOne_def new_Date_def io_simps Let_def)
  qed
qed

lemma getContextForPrompt_fails_later:
  assumes "fails_at (Suc (Suc (Suc k))) se w"
  shows "\<exists>c w'. getContextForPrompt uid w = (Inr c, w') \<and> fails_at k se w'"
proof -
  from getUser_fails_later [OF assms, of uid]
  obtain u w1 where u: "getUser uid w = (Inr u, w1) \<and> fails_at (Suc k) se w1" by (elim exE)
  then have "fails_at (Suc k) se w1" by simp
  from store_op_fails_later [OF this, of "FindOp Conversations"]
  obtain w2 where "store_op (FindOp Conversations) w1 = (Inr (), w2) \<and> fails_at k se w2"
    by (rule exE)
  with u show ?thesis
    by (simp add: getContextForPrompt_def getConversationHistory_def
          conversations_find_sorted_def io_simps)
qed

lemma saveMessage_fails_first:
  assumes "fails_at 0 se w"
  shows "\<exists>w'. saveMessage uid r c w = (Inl se, w')"
proof -
  let ?w0 = "w\<lparr>uuids := Suc (uuids w), reads := Suc (reads w)\<rparr>"
  from assms have "fails_at 0 se ?w0" by simp
  from store_op_fails_now [OF this, of "InsertOp Conversations"]
  obtain w1 where "store_op (InsertOp Conversations) ?w0 = (Inl se, w1)" by (rule exE)
  then show ?thesis
    by (simp add: saveMessage_def uuidv4_def new_Date_def conversations_insertOne_def io_simps)
qed

lemma saveMessage_fails_second:
  assumes "fails_at (Suc 0) se w"
  shows "\<exists>w'. saveMessage uid r c w = (Inl se, w')"
proof -
  let ?w0 = "w\<lparr>uuids := Suc (uuids w), reads := Suc (reads w)\<rparr>"
  from assms have "fails_at (Suc 0) se ?w0" by simp
  from store_op_fails_later [OF this, of "InsertOp Conversations"]
  obtain w1 where w1: "store_op (InsertOp Conversations) ?w0 = (Inr (), w1) \<and> fails_at 0 se w1"
    by (rule exE)
  let ?m = "\<lparr>messageId = uuids w, msg_userId = uid, role = r, content = c,
             timestamp = clock w (reads w)\<rparr>"
  let ?w2 = "w1\<lparr>conversations := conversations w1 @ [?m], reads := Suc (reads w1)\<rparr>"
  from w1 have "fails_at 0 se ?w2" by simp
  from store_op_fails_now [OF this, of "UpdateOp Users"]
  obtain w3 where w3: "store_op (UpdateOp Users) ?w2 = (Inl se, w3)" by (rule exE)
  from w1 have op1: "store_op (InsertOp Conversations) ?w0 = (Inr (), w1)" by simp
  from store_op_frame [OF op1]
  have f: "conversations w1 = conversations ?w0" "reads w1 = reads ?w0"
      "clock w1 = clock ?w0" "uuids w1 = uuids ?w0"
    by simp_all
  with w1 w3 show ?thesis
    by (simp add: saveMessage_def uuidv4_def new_Date_def conversations_insertOne_def
          users_updateOne_def io_simps)
qed

lemma saveMessage_fails_later:
  assumes "fails_at (Suc (Suc k)) se w"
  shows "\<exists>w'. saveMessage uid r c w = (Inr (), w') \<and> fails_at k se w'"
proof -
  let ?w0 = "w\<lparr>uuids := Suc (uuids w), reads := Suc (reads w)\<rparr>"
  from assms have "fails_at (Suc (Suc k)) se ?w0" by simp
  from store_op_fails_later [OF this, of "InsertOp Conversations"]
  obtain w1 where w1: "store_op (InsertOp Conversations) ?w0 = (Inr (), w1)
      \<and> fails_at (Suc k) se w1"
    by (rule exE)
  let ?m = "\<lparr>messageId = uuids w, msg_userId = uid, role = r, content = c,
             timestamp = clock w (reads w)\<rparr>"
  let ?w2 = "w1\<lparr>conversations := conversations w1 @ [?m], reads := Suc (reads w1)\<rparr>"
  from w1 have "fails_at (Suc k) se ?w2" by simp
  from store_op_fails_later [OF this, of "UpdateOp Users"]
  obtain w3 where w3: "store_op (UpdateOp Users) ?w2 = (Inr (), w3) \<and> fails_at k se w3"
    by (rule exE)
  from w1 have op1: "store_op (InsertOp Conversations) ?w0 = (Inr (), w1)" by simp
  from store_op_frame [OF op1]
  have f: "conversations w1 = conversations ?w0" "reads w1 = reads ?w0"
      "clock w1 = clock ?w0" "uuids w1 = uuids ?w0"
    by simp_all
  with w1 w3 show ?thesis
    by (simp add: saveMessage_def uuidv4_def new_Date_def conversations_insertOne_def
          users_updateOne_def io_simps)
qed

lemma chat_persist_failure:
  assumes gen: "\<And>req. groq req = Inr reply"
    and k: "3 \<le> k" "k < 7" and f: "fails_at k se w"
  shows "\<exists>w'. chat groq P uid msg w = (Inr (getErrorResponse se), w')"
proof -
  define j where "j = k - 3"
  from k have kj: "k = Suc (Suc (Suc j))" and j: "j < 4"
    unfolding j_def by arith+
  from f kj have "fails_at (Suc (Suc (Suc j))) se w" by simp
  from getContextForPrompt_fails_later [OF this, of uid]
  obtain c w1 where ctx: "getContextForPrompt uid w = (Inr c, w1) \<and> fails_at j se w1"
    by (elim exE)
  let ?w2 = "w1\<lparr>trace := trace w1 @ [CompletionCall]\<rparr>"
  from ctx have f2: "fails_at j se ?w2" by simp
  have "\<exists>w'. (saveMessage uid ''user'' msg ?w2 = (Inl se, w'))
      \<or> (\<exists>w3. saveMessage uid ''user'' msg ?w2 = (Inr (), w3)
            \<and> saveMessage uid ''assistant'' reply w3 = (Inl se, w'))"
  proof -
    from j consider "j = 0" | "j = Suc 0" | "j = Suc (Suc 0)" | "j = Suc (Suc (Suc 0))"
      by arith
    then show ?thesis
    proof cases
      case 1
      with f2 saveMessage_fails_first [of se ?w2 uid "''user''" msg] show ?thesis by auto
    next
      case 2
      with f2 saveMessage_fails_second [of se ?w2 uid "''user''" msg] show ?thesis by auto
    next
      case 3
      with f2 have "fails_at (Suc (Suc 0)) se ?w2" by simp
      from saveMessage_fails_later [OF this, of uid "''user''" msg]
      obtain w3 where w3: "saveMessage uid ''user'' msg ?w2 = (Inr (), w3) \<and> fails_at 0 se w3"
        by (rule exE)
      with saveMessage_fails_first [of se w3 uid "''assistant''" reply] show ?thesis by auto
    next
      case 4
      with f2 have "fails_at (Suc (Suc (Suc 0))) se ?w2" by simp
      from saveMessage_fails_later [OF this, of uid "''user''" msg]
      obtain w3 where w3: "saveMessage uid ''user'' msg ?w2 = (Inr (), w3)
          \<and> fails_at (Suc 0) se w3"
        by (rule exE)
      with saveMessage_fails_second [of se w3 uid "''assistant''" reply] show ?thesis by auto
    qed
  qed
  then obtain w' where "(saveMessage uid ''user'' msg ?w2 = (Inl se, w'))
      \<or> (\<exists>w3. saveMessage uid ''user'' msg ?w2 = (Inr (), w3)
            \<and> saveMessage uid ''assistant'' reply w3 = (Inl se, w'))"
    by (rule exE)
  with ctx have "chat groq P uid msg w = (Inr (getErrorResponse se), w')"
    by (auto simp: chat_def io_simps Let_def startChat_def convert_history_build
          sendMessage_def gen)
  then show ?thesis by (rule exI)
qed

text \<open>
  Claim C3, as amended.  Let the completion call return \<open>reply\<close>.  When the store is
  available for the seven operations up to and including the saving of both
  messages, the turn returns \<open>reply\<close> unchanged, whatever the store does during fact
  extraction.  When the store fails for the first time during the saving of the two
  messages (at one of the operations 3 to 6, counted from 0) with the error \<open>se\<close>,
  the failure is not swallowed: the turn returns the apology \<open>getErrorResponse se\<close>
  in place of the reply.
\<close>

theorem chat_storage_outage:
  assumes "\<And>req. groq req = Inr reply"
  shows "(available_for 7 w \<longrightarrow> (\<exists>w'. chat groq P uid msg w = (Inr reply, w')))
       \<and> (\<forall>k se. 3 \<le> k \<and> k < 7 \<and> fails_at k se w \<longrightarrow>
            (\<exists>w'. chat groq P uid msg w = (Inr (getErrorResponse se), w')))"
proof (intro conjI allI impI)
  assume "available_for 7 w"
  then show "\<exists>w'. chat groq P uid msg w = (Inr reply, w')"
    using assms by (rule chat_reply)
next
  fix k se
  assume h: "3 \<le> k \<and> k < 7 \<and> fails_at k se w"
  then have "3 \<le> k" and "k < 7" and "fails_at k se w" by simp_all
  with assms show "\<exists>w'. chat groq P uid msg w = (Inr (getErrorResponse se), w')"
    by (rule chat_persist_failure)
qed

lemma getErrorResponse_storage_error:
  "getErrorResponse storage_error = ''Sorry, I got a bit confused there. Mind rephrasing that?''"
  by (simp add: getErrorResponse_def message_includes_def storage_error_def)

theorem chat_storage_outage_witness:
  "available_for 7 extraction_outage_world
   \<and> faults extraction_outage_world ! 7 = Some storage_error
   \<and> (\<exists>w'. chat (\<lambda>_. Inr ''Hi there'') example_personality ''u1'' ''hello''
              extraction_outage_world = (Inr ''Hi there'', w'))
   \<and> fails_at 5 storage_error assistant_outage_world
   \<and> (\<exists>w'. chat (\<lambda>_. Inr ''Hi there'') example_personality ''u1'' ''hello''
              assistant_outage_world
            = (Inr ''Sorry, I got a bit confused there. Mind rephrasing that?'', w'))"
proof -
  have av: "available_for 7 extraction_outage_world"
    by (simp add: available_for_def extraction_outage_world_def)
  have f: "faults extraction_outage_world ! 7 = Some storage_error"
    by (simp add: extraction_outage_world_def)
  have fa: "fails_at 5 storage_error assistant_outage_world"
    by (simp add: fails_at_def available_for_def assistant_outage_world_def)
  note t1 = chat_storage_outage [of "\<lambda>_. Inr ''Hi there''" "''Hi there''"
         extraction_outage_world example_personality "''u1''" "''hello''", OF refl]
  note t2 = chat_storage_outage [of "\<lambda>_. Inr ''Hi there''" "''Hi there''"
         assistant_outage_world example_personality "''u1''" "''hello''", OF refl]
  from t1 av
  have r1: "\<exists>w'. chat (\<lambda>_. Inr ''Hi there'') example_personality ''u1'' ''hello''
              extraction_outage_world = (Inr ''Hi there'', w')"
    by simp
  from t2 have "3 \<le> (5::nat) \<and> (5::nat) < 7 \<and> fails_at 5 storage_error assistant_outage_world \<longrightarrow>
      (\<exists>w'. chat (\<lambda>_. Inr ''Hi there'') example_personality ''u1'' ''hello''
              assistant_outage_world = (Inr (getErrorResponse storage_error), w'))"
    by (elim conjE allE)
  with fa
  have r2: "\<exists>w'. chat (\<lambda>_. Inr ''Hi there'') example_personality ''u1'' ''hello''
              assistant_outage_world
            = (Inr ''Sorry, I got a bit confused there. Mind rephrasing that?'', w')"
    by (simp add: getErrorResponse_storage_error)
  from av f r1 fa r2 show ?thesis by (intro conjI)
qed

text \<open>The claim as stated fails for a store failure while the user's message is
  saved (its insertion is the fourth operation): \<open>saveMessage\<close> rethrows, the
  \<^verbatim>\<open>catch\<close> of \<open>chat\<close> takes over, and the caller receives the apology instead of the
  generated reply.\<close>

theorem chat_persist_outage_counterexample:
  "faults persist_outage_world = [None, None, None, Some storage_error]
   \<and> fst (chat (\<lambda>_. Inr ''Hi there'') example_personality ''u1'' ''hello'' persist_outage_world)
       = Inr ''Sorry, I got a bit confused there. Mind rephrasing that?''"
proof -
  have ctx: "\<exists>c w1. getContextForPrompt ''u1'' persist_outage_world = (Inr c, w1)
      \<and> faults w1 = [Some storage_error]"
    by (simp add: getContextForPrompt_def getUser_def users_findOne_def users_insertOne_def
          getConversationHistory_def conversations_find_sorted_def new_Date_def io_simps
          store_op_def Let_def persist_outage_world_def)
  then obtain c w1 where c: "getContextForPrompt ''u1'' persist_outage_world = (Inr c, w1)"
     and f: "faults w1 = [Some storage_error]" by (elim exE conjE)
  have save: "\<exists>w2. saveMessage ''u1'' ''user'' ''hello'' (w1\<lparr>trace := trace w1 @ [CompletionCall]\<rparr>)
      = (Inl storage_error, w2)"
    using f by (simp add: saveMessage_def uuidv4_def new_Date_def conversations_insertOne_def
          io_simps store_op_def Let_def)
  then obtain w2 where s: "saveMessage ''u1'' ''user'' ''hello'' (w1\<lparr>trace := trace w1 @ [CompletionCall]\<rparr>)
      = (Inl storage_error, w2)" by (elim exE)
  have "chat (\<lambda>_. Inr ''Hi there'') example_personality ''u1'' ''hello'' persist_outage_world
      = (Inr (getErrorResponse storage_error), w2)"
    using c s
    by (simp add: chat_def io_simps Let_def startChat_def convert_history_build sendMessage_def)
  moreover have "getErrorResponse storage_error
      = ''Sorry, I got a bit confused there. Mind rephrasing that?''"
    by (simp add: getErrorResponse_def message_includes_def storage_error_def)
  ultimately show ?thesis by (simp add: persist_outage_world_def)
qed

section \<open>Fact extraction\<close>

lemma extract_age_other:
  "age (fst (extract_name msg st)) = age (fst st)"
  "age (fst (extract_location msg st)) = age (fst st)"
  "age (fst (extract_favoriteColor msg st)) = age (fst st)"
  "age (fst (extract_hobby msg st)) = age (fst st)"
  by (simp_all add: extract_name_def extract_location_def extract_favoriteColor_def
        extract_hobby_def Let_def split: option.splits)

lemma extractInfo_age:
  "age (fst (extractInfo p msg)) =
     (case match_group age_pattern msg of
        Some g \<Rightarrow> if \<not> truthy_num (age p) then Some (parseInt g) else age p
      | None \<Rightarrow> age p)"
  by (simp add: extractInfo_def extract_age_other) (simp add: extract_age_def extract_age_other split: option.splits)

lemma extract_name_other:
  "name (fst (extract_age msg st)) = name (fst st)"
  "name (fst (extract_location msg st)) = name (fst st)"
  "name (fst (extract_favoriteColor msg st)) = name (fst st)"
  "name (fst (extract_hobby msg st)) = name (fst st)"
  by (simp_all add: extract_age_def extract_location_def extract_favoriteColor_def
        extract_hobby_def Let_def split: option.splits)

lemma extract_location_other:
  "location (fst (extract_age msg st)) = location (fst st)"
  "location (fst (extract_name msg st)) = location (fst st)"
  "location (fst (extract_favoriteColor msg st)) = location (fst st)"
  "location (fst (extract_hobby msg st)) = location (fst st)"
  by (simp_all add: extract_age_def extract_name_def extract_favoriteColor_def
        extract_hobby_def Let_def split: option.splits)

text \<open>A field that is truthy is never overwritten by extraction.\<close>

lemma extractInfo_keeps_truthy:
  "(truthy_str (name p) \<longrightarrow> name (fst (extractInfo p msg)) = name p)
   \<and> (truthy_num (age p) \<longrightarrow> age (fst (extractInfo p msg)) = age p)
   \<and> (truthy_str (location p) \<longrightarrow> location (fst (extractInfo p msg)) = location p)"
  by (simp add: extractInfo_def extract_age_other extract_name_other extract_location_other)
     (simp add: extract_age_def extract_name_def extract_location_def extract_age_other extract_name_other extract_location_other split: option.splits)

lemma match_age_30: "match_group age_pattern ''I am 30 years old'' = Some ''30''"
  by (simp add: eval_char eval_regex age_pattern_def cong: map_weak_cong)
lemma match_age_40: "match_group age_pattern ''I am 40 years old'' = Some ''40''"
  by (simp add: eval_char eval_regex age_pattern_def cong: map_weak_cong)
lemma match_age_0: "match_group age_pattern ''I am 0 years old'' = Some ''0''"
  by (simp add: eval_char eval_regex age_pattern_def cong: map_weak_cong)

lemma parseInt_examples: "parseInt ''30'' = 30" "parseInt ''40'' = 40" "parseInt ''0'' = 0"
  by (simp_all add: parseInt_def code_def)

text \<open>The example of the specification: from no age, "I am 30 years old" sets 30,
  and "I am 40 years old" then leaves 30.\<close>

lemma first_write_example:
  "age (fst (extractInfo default_profile ''I am 30 years old'')) = Some 30
   \<and> age (fst (extractInfo (default_profile\<lparr>age := Some 30\<rparr>) ''I am 40 years old'')) = Some 30"
  by (simp add: extractInfo_age match_age_30 match_age_40 parseInt_examples truthy_num_def default_profile_def del: match_group.simps)

lemma extract_steps_not_updated:
  "snd (extract_name msg st) = False \<Longrightarrow> extract_name msg st = st"
  "snd (extract_age msg st) = False \<Longrightarrow> extract_age msg st = st"
  "snd (extract_location msg st) = False \<Longrightarrow> extract_location msg st = st"
  "snd (extract_favoriteColor msg st) = False \<Longrightarrow> extract_favoriteColor msg st = st"
  "snd (extract_hobby msg st) = False \<Longrightarrow> extract_hobby msg st = st"
  by (simp_all add: extract_name_def extract_age_def extract_location_def
        extract_favoriteColor_def extract_hobby_def Let_def split: option.splits if_splits)

lemma extractInfo_not_updated:
  assumes "snd (extractInfo p msg) = False"
  shows "fst (extractInfo p msg) = p"
proof -
  let ?s1 = "extract_name msg (p, False)"
  let ?s2 = "extract_age msg ?s1"
  let ?s3 = "extract_location msg ?s2"
  let ?s4 = "extract_favoriteColor msg ?s3"
  have e: "extractInfo p msg = extract_hobby msg ?s4" by (simp only: extractInfo_def)
  from assms e have "snd (extract_hobby msg ?s4) = False" by simp
  then have 5: "extract_hobby msg ?s4 = ?s4" by (rule extract_steps_not_updated(5))
  with assms e have "snd ?s4 = False" by simp
  then have 4: "?s4 = ?s3" by (rule extract_steps_not_updated(4))
  with \<open>snd ?s4 = False\<close> have "snd ?s3 = False" by simp
  then have 3: "?s3 = ?s2" by (rule extract_steps_not_updated(3))
  with \<open>snd ?s3 = False\<close> have "snd ?s2 = False" by simp
  then have 2: "?s2 = ?s1" by (rule extract_steps_not_updated(2))
  with \<open>snd ?s2 = False\<close> have "snd ?s1 = False" by simp
  then have 1: "?s1 = (p, False)" by (rule extract_steps_not_updated(1))
  from e 5 4 3 2 1 show ?thesis by simp
qed

lemma getUser_available_profile:
  assumes "faults w = []"
  shows "\<exists>u w1. getUser uid w = (Inr u, w1) \<and> faults w1 = []
     \<and> profile u = profile_of w uid \<and> profile_of w1 uid = profile_of w uid
     \<and> lookup_user w1 uid \<noteq> None"
  using assms
  by (auto simp: getUser_def users_findOne_def users_insertOne_def users_updateOne_def
        new_Date_def io_simps Let_def store_op_available lookup_user_def profile_of_def
        find_update_first find_snoc
      split: option.splits)

lemma updateUserProfile_available:
  assumes "faults w = []" and "lookup_user w uid \<noteq> None"
  shows "\<exists>w'. updateUserProfile uid p w = (Inr (), w') \<and> faults w' = []
     \<and> profile_of w' uid = p"
  using assms
  by (auto simp: updateUserProfile_def users_updateOne_def new_Date_def io_simps
        store_op_available lookup_user_def profile_of_def find_update_first
      split: option.splits)

lemma extractAndSaveInfo_available:
  assumes "faults w = []"
  shows "\<exists>w'. extractAndSaveInfo uid msg w = (Inr (), w') \<and> faults w' = []
     \<and> profile_of w' uid = fst (extractInfo (profile_of w uid) msg)"
proof -
  from getUser_available_profile [OF assms, of uid]
  obtain u w1 where g: "getUser uid w = (Inr u, w1) \<and> faults w1 = []
     \<and> profile u = profile_of w uid \<and> profile_of w1 uid = profile_of w uid
     \<and> lookup_user w1 uid \<noteq> None"
    by (elim exE)
  let ?e = "extractInfo (profile_of w uid) msg"
  show ?thesis
  proof (cases "snd ?e")
    case True
    from g have "faults w1 = []" and "lookup_user w1 uid \<noteq> None" by simp_all
    from updateUserProfile_available [OF this, of "fst ?e"]
    obtain w2 where "updateUserProfile uid (fst ?e) w1 = (Inr (), w2) \<and> faults w2 = []
       \<and> profile_of w2 uid = fst ?e"
      by (elim exE)
    with g True show ?thesis
      by (simp add: extractAndSaveInfo_def io_simps case_prod_beta)
  next
    case False
    then have "fst ?e = profile_of w uid" by (simp add: extractInfo_not_updated)
    with g False show ?thesis
      by (simp add: extractAndSaveInfo_def io_simps case_prod_beta)
  qed
qed

lemma age_after_0: "age (fst (extractInfo default_profile ''I am 0 years old'')) = Some 0"
  by (simp add: extractInfo_age match_age_0 parseInt_examples truthy_num_def default_profile_def del: match_group.simps)

lemma age_after_40:
  "age q = Some 0 \<Longrightarrow> age (fst (extractInfo q ''I am 40 years old'')) = Some 40"
  by (simp add: extractInfo_age match_age_40 parseInt_examples truthy_num_def del: match_group.simps)

text \<open>
  Claim C1.  The guards of \<open>extractAndSaveInfo\<close> test truthiness, not \<^verbatim>\<open>null\<close>, so
  first-write-wins fails for the age 0: for a new user, "I am 0 years old" stores
  the age 0, and the next message "I am 40 years old" overwrites it with 40.
\<close>

theorem extraction_overwrites_age_zero:
  "\<exists>w1 w2. extractAndSaveInfo ''u1'' ''I am 0 years old'' empty_world = (Inr (), w1)
      \<and> age (profile_of w1 ''u1'') = Some 0
      \<and> extractAndSaveInfo ''u1'' ''I am 40 years old'' w1 = (Inr (), w2)
      \<and> age (profile_of w2 ''u1'') = Some 40"
proof -
  have av: "faults empty_world = []" by (simp add: empty_world_def)
  have p0: "profile_of empty_world ''u1'' = default_profile"
    by (simp add: profile_of_def lookup_user_def empty_world_def)
  from extractAndSaveInfo_available [OF av, of "''u1''" "''I am 0 years old''"]
  obtain w1 where w1: "extractAndSaveInfo ''u1'' ''I am 0 years old'' empty_world = (Inr (), w1)
     \<and> faults w1 = []
     \<and> profile_of w1 ''u1'' = fst (extractInfo (profile_of empty_world ''u1'') ''I am 0 years old'')"
    by (elim exE)
  then have run1: "extractAndSaveInfo ''u1'' ''I am 0 years old'' empty_world = (Inr (), w1)"
    and av1: "faults w1 = []"
    and pr1: "profile_of w1 ''u1'' = fst (extractInfo default_profile ''I am 0 years old'')"
    by (simp_all only: p0)
  from pr1 have a1: "age (profile_of w1 ''u1'') = Some 0" by (simp only: age_after_0)
  from extractAndSaveInfo_available [OF av1, of "''u1''" "''I am 40 years old''"]
  obtain w2 where w2: "extractAndSaveInfo ''u1'' ''I am 40 years old'' w1 = (Inr (), w2)
     \<and> faults w2 = []
     \<and> profile_of w2 ''u1'' = fst (extractInfo (profile_of w1 ''u1'') ''I am 40 years old'')"
    by (elim exE)
  then have run2: "extractAndSaveInfo ''u1'' ''I am 40 years old'' w1 = (Inr (), w2)"
    and pr2: "profile_of w2 ''u1'' = fst (extractInfo (profile_of w1 ''u1'') ''I am 40 years old'')"
    by simp_all
  from pr2 age_after_40 [OF a1] have a2: "age (profile_of w2 ''u1'') = Some 40" by simp
  from run1 a1 run2 a2 show ?thesis by (intro exI conjI)
qed

section \<open>The prompt builder\<close>

lemma history_entries_of_roles_contents:
  "map (\<lambda>msg. \<lparr>h_role = (if role msg = ''user'' then ''user'' else ''model''),
                 parts = [content msg]\<rparr>) ms
   = map (\<lambda>(r, c). \<lparr>h_role = (if r = ''user'' then ''user'' else ''model''), parts = [c]\<rparr>)
         (zip (map role ms) (map content ms))"
  by (induction ms) simp_all

lemma buildConversationHistory_roles_contents:
  assumes "map role ms = map role ms'" and "map content ms = map content ms'"
  shows "buildConversationHistory (JsArray ms) = buildConversationHistory (JsArray ms')"
proof -
  from assms(1) have "length ms = length ms'" by (rule map_eq_imp_length_eq)
  with assms show ?thesis
    by (simp add: buildConversationHistory_def history_entries_of_roles_contents)
qed

text \<open>
  Claim C7.  The Prompt Builder, as \<open>chat\<close> calls it (the system prompt with the
  tone instructions appended, and the reshaped history), is a function of the
  snapshot's name, age, location, interests, preferences and facts, of the roles and
  contents of its recent messages, and of the tone: two calls that agree on these
  give identical strings and histories, whatever the timestamps, identifiers and
  counters in the snapshot; in particular two calls with identical snapshot and tone
  do.
\<close>

theorem prompt_builder_deterministic:
  assumes "userName c = userName c'" and "userAge c = userAge c'"
    and "userLocation c = userLocation c'" and "ctx_interests c = ctx_interests c'"
    and "ctx_preferences c = ctx_preferences c'" and "ctx_facts c = ctx_facts c'"
    and "map role (recentMessages c) = map role (recentMessages c')"
    and "map content (recentMessages c) = map content (recentMessages c')"
  shows "buildSystemPrompt P c @ getToneInstructions t
           = buildSystemPrompt P c' @ getToneInstructions t
       \<and> buildConversationHistory (JsArray (recentMessages c))
           = buildConversationHistory (JsArray (recentMessages c'))"
proof
  show "buildSystemPrompt P c @ getToneInstructions t
           = buildSystemPrompt P c' @ getToneInstructions t"
    using assms(1-6) by (simp add: buildSystemPrompt_def prompt_tail_def)
  show "buildConversationHistory (JsArray (recentMessages c))
           = buildConversationHistory (JsArray (recentMessages c'))"
    using assms(7,8) by (rule buildConversationHistory_roles_contents)
qed

theorem prompt_builder_deterministic_witness:
  "map timestamp (recentMessages snapshot_a) \<noteq> map timestamp (recentMessages snapshot_b)
   \<and> ctx_totalMessages snapshot_a \<noteq> ctx_totalMessages snapshot_b
   \<and> buildSystemPrompt example_personality snapshot_a @ getToneInstructions Sad
       = buildSystemPrompt example_personality snapshot_b @ getToneInstructions Sad
   \<and> buildConversationHistory (JsArray (recentMessages snapshot_a))
       = buildConversationHistory (JsArray (recentMessages snapshot_b))"
proof -
  have d: "map timestamp (recentMessages snapshot_a) \<noteq> map timestamp (recentMessages snapshot_b)"
      "ctx_totalMessages snapshot_a \<noteq> ctx_totalMessages snapshot_b"
    by (simp_all add: snapshot_a_def snapshot_b_def)
  have "buildSystemPrompt example_personality snapshot_a @ getToneInstructions Sad
       = buildSystemPrompt example_personality snapshot_b @ getToneInstructions Sad
   \<and> buildConversationHistory (JsArray (recentMessages snapshot_a))
       = buildConversationHistory (JsArray (recentMessages snapshot_b))"
    by (rule prompt_builder_deterministic) (simp_all add: snapshot_a_def snapshot_b_def)
  with d show ?thesis by simp
qed

end
